theory Spec2Isabelle
  imports Main
begin

section \<open>The Argo tunnel client of cloudflare-go (argo\_tunnel.go)\<close>

text \<open>
  The file binds five REST operations: each formats a URI, calls the shared helper
  \<^verbatim>\<open>makeRequestContext\<close>, decodes the JSON envelope with \<^verbatim>\<open>json.Unmarshal\<close> and returns
  the typed payload or a wrapped error.  Go strings are byte strings, modelled as
  \<^typ>\<open>string\<close> (characters are bytes).  A Go slice is a \<^typ>\<open>'a list option\<close>:
  \<^term>\<open>None\<close> is the nil slice, \<^term>\<open>Some []\<close> the empty non-nil slice.  A nilable pointer
  \<^verbatim>\<open>*time.Time\<close> is a \<^typ>\<open>'t option\<close>, for a type \<^typ>\<open>'t\<close> of time values.
\<close>

subsection \<open>Data model (lines 12--41)\<close>

record ArgoTunnelConnection =
  ColoName :: string
  UUID :: string
  IsPendingReconnect :: bool

record 't ArgoTunnel =
  ID :: string
  Name :: string
  Secret :: string
  CreatedAt :: "'t option"
  DeletedAt :: "'t option"
  Connections :: "ArgoTunnelConnection list option"

text \<open>
  Modelled from the spec: the generic \<^verbatim>\<open>Response\<close> type embedded in both envelopes is
  declared outside this file; the spec describes it as a top-level status object with a
  success flag, errors and messages.  Each error or message entry carries a numeric code
  and a text.
\<close>

record ResponseInfo =
  Code :: int
  Message :: string

record Response =
  Success :: bool
  Errors :: "ResponseInfo list option"
  Messages :: "ResponseInfo list option"

text \<open>Embedding \<^verbatim>\<open>Response\<close> in a struct is record extension.  Both envelopes call
  their payload \<^verbatim>\<open>Result\<close>; the plain name is the single-tunnel envelope's field and the
  list envelope's field is written with its record's name in front.\<close>

record 't ArgoTunnelsDetailResponse = Response +
  Result :: "'t ArgoTunnel list option"

record 't ArgoTunnelDetailResponse = Response +
  Result :: "'t ArgoTunnel"

text \<open>The zero values Go gives to a declared variable and to a composite literal
  without fields.\<close>

definition zero_ArgoTunnelConnection :: ArgoTunnelConnection where
  "zero_ArgoTunnelConnection = \<lparr>ColoName = [], UUID = [], IsPendingReconnect = False\<rparr>"

definition zero_ArgoTunnel :: "'t ArgoTunnel" where
  "zero_ArgoTunnel =
     \<lparr>ID = [], Name = [], Secret = [], CreatedAt = None, DeletedAt = None, Connections = None\<rparr>"

definition zero_ResponseInfo :: ResponseInfo where
  "zero_ResponseInfo = \<lparr>Code = 0, Message = []\<rparr>"

definition zero_ArgoTunnelsDetailResponse :: "'t ArgoTunnelsDetailResponse" where
  "zero_ArgoTunnelsDetailResponse =
     \<lparr>Success = False, Errors = None, Messages = None,
       ArgoTunnelsDetailResponse.Result = None\<rparr>"

definition zero_ArgoTunnelDetailResponse :: "'t ArgoTunnelDetailResponse" where
  "zero_ArgoTunnelDetailResponse =
     \<lparr>Success = False, Errors = None, Messages = None, Result = zero_ArgoTunnel\<rparr>"

subsection \<open>JSON values and errors\<close>

text \<open>
  A JSON document after scanning.  A number keeps its literal text, an object key holds
  the unquoted bytes, and an object keeps its members in document order, duplicates
  included.  A string literal whose bytes between the quotes are its value is
  \<open>JString value\<close>.  A literal whose bytes differ from its value (it is written with an
  escape sequence, or has bytes that are not UTF-8, which unquoting replaces) is
  \<open>JEscaped raw value\<close>: the bytes between the quotes as written, and the unquoted value.
  The decoder of a Go string takes the value; \<^verbatim>\<open>Time.UnmarshalJSON\<close> is handed the literal
  as written.
\<close>

datatype json =
    JNull
  | JBool bool
  | JNumber string
  | JString string
  | JEscaped string string
  | JArray "json list"
  | JObject "(string \<times> json) list"

text \<open>
  The errors an operation can return: what the transport reports (\<^typ>\<open>'e\<close>), the three
  ways \<^verbatim>\<open>json.Unmarshal\<close> fails, and \<^verbatim>\<open>errors.Wrap\<close> around a cause.
\<close>

datatype 'e error =
    TransportFailure 'e
  | SyntaxError
  | UnmarshalTypeError string string
  | TimeUnmarshalError
  | Wrapped "'e error" string

definition Wrap :: "'e error \<Rightarrow> string \<Rightarrow> 'e error" where
  "Wrap err message = Wrapped err message"

fun Cause :: "'e error \<Rightarrow> 'e error" where
  "Cause (Wrapped err message) = Cause err"
| "Cause err = err"

subsection \<open>Matching object keys to struct fields\<close>

text \<open>
  \<^verbatim>\<open>encoding/json\<close> looks a key up by its exact name first and falls back to a
  case-insensitive comparison against each field in declaration order.  The fold is
  ASCII case folding, and a name containing \<^verbatim>\<open>k\<close> or \<^verbatim>\<open>s\<close> also matches the Kelvin
  sign (U+212A, bytes E2 84 AA) and the long s (U+017F, bytes C5 BF) in the key.
\<close>

definition caseMask :: "char \<Rightarrow> char" where
  "caseMask c =
     Char (digit0 c) (digit1 c) (digit2 c) (digit3 c) (digit4 c) False (digit6 c) (digit7 c)"

definition isUpper :: "char \<Rightarrow> bool" where
  "isUpper c \<longleftrightarrow> (65::nat) \<le> of_char c \<and> of_char c \<le> (90::nat)"

fun equalFold :: "string \<Rightarrow> string \<Rightarrow> bool" where
  "equalFold [] t = (t = [])"
| "equalFold (sb # s) [] = False"
| "equalFold (sb # s) (tb # t) =
     (if (of_char tb :: nat) < 128 then
        (if sb = tb then equalFold s t
         else if isUpper (caseMask sb) \<and> caseMask sb = caseMask tb then equalFold s t
         else False)
      else if caseMask sb = CHR ''S'' \<and> tb = CHR 0xC5 \<and> take 1 t = [CHR 0xBF]
        then equalFold s (drop 1 t)
      else if caseMask sb = CHR ''K'' \<and> tb = CHR 0xE2 \<and> take 2 t = [CHR 0x84, CHR 0xAA]
        then equalFold s (drop 2 t)
      else False)"

definition findField :: "string list \<Rightarrow> string \<Rightarrow> string option" where
  "findField names key =
     (if key \<in> set names then Some key else find (\<lambda>name. equalFold name key) names)"

subsection \<open>Decoding a JSON value into a Go value\<close>

text \<open>
  \<^verbatim>\<open>json.Unmarshal\<close> decodes in place: every decoder takes the JSON value, the current
  Go value and the decoder's saved error, and returns the new Go value and saved error.
  A type mismatch is saved (the first one is kept) and decoding goes on; an error of a
  custom unmarshaler (here \<^verbatim>\<open>time.Time\<close>) aborts at once, which is the \<^term>\<open>Inl\<close> branch.
  A JSON \<^verbatim>\<open>null\<close> leaves a string, bool, int or struct as it is and makes a pointer or
  slice nil.
\<close>

type_synonym ('a, 'e) decoded = "'e error + ('a \<times> 'e error option)"

definition saveError :: "'e error \<Rightarrow> 'e error option \<Rightarrow> 'e error option" where
  "saveError err saved = (case saved of None \<Rightarrow> Some err | Some first \<Rightarrow> Some first)"

definition into :: "('a \<Rightarrow> 's) \<Rightarrow> ('a, 'e) decoded \<Rightarrow> ('s, 'e) decoded" where
  "into store r = (case r of Inl err \<Rightarrow> Inl err | Inr (x, saved) \<Rightarrow> Inr (store x, saved))"

fun describe :: "json \<Rightarrow> string" where
  "describe JNull = ''null''"
| "describe (JBool b) = ''bool''"
| "describe (JNumber n) = ''number''"
| "describe (JString s) = ''string''"
| "describe (JEscaped raw s) = ''string''"
| "describe (JArray js) = ''array''"
| "describe (JObject kvs) = ''object''"

definition value_string :: "json \<Rightarrow> string \<Rightarrow> 'e error option \<Rightarrow> (string, 'e) decoded" where
  "value_string j v saved =
     (case j of
        JNull \<Rightarrow> Inr (v, saved)
      | JString s \<Rightarrow> Inr (s, saved)
      | JEscaped raw s \<Rightarrow> Inr (s, saved)
      | _ \<Rightarrow> Inr (v, saveError (UnmarshalTypeError (describe j) ''string'') saved))"

definition value_bool :: "json \<Rightarrow> bool \<Rightarrow> 'e error option \<Rightarrow> (bool, 'e) decoded" where
  "value_bool j v saved =
     (case j of
        JNull \<Rightarrow> Inr (v, saved)
      | JBool b \<Rightarrow> Inr (b, saved)
      | _ \<Rightarrow> Inr (v, saveError (UnmarshalTypeError (describe j) ''bool'') saved))"

text \<open>\<^verbatim>\<open>strconv.ParseInt(s, 10, 64)\<close>: an optional sign, then decimal digits only, and
  the value must fit 64 bits.\<close>

definition isDigit :: "char \<Rightarrow> bool" where
  "isDigit c \<longleftrightarrow> (48::nat) \<le> of_char c \<and> of_char c \<le> (57::nat)"

definition digits_value :: "string \<Rightarrow> int" where
  "digits_value ds = foldl (\<lambda>a c. 10 * a + (of_char c - 48)) 0 ds"

definition ParseInt :: "string \<Rightarrow> int option" where
  "ParseInt s =
     (let neg = (take 1 s = ''-'');
          ds = (if take 1 s = ''-'' \<or> take 1 s = ''+'' then drop 1 s else s);
          n = (if neg then - digits_value ds else digits_value ds)
      in if ds \<noteq> [] \<and> list_all isDigit ds \<and> - (2 ^ 63) \<le> n \<and> n < 2 ^ 63
         then Some n else None)"

definition value_int :: "json \<Rightarrow> int \<Rightarrow> 'e error option \<Rightarrow> (int, 'e) decoded" where
  "value_int j v saved =
     (case j of
        JNull \<Rightarrow> Inr (v, saved)
      | JNumber s \<Rightarrow>
          (case ParseInt s of
             Some n \<Rightarrow> Inr (n, saved)
           | None \<Rightarrow> Inr (v, saveError (UnmarshalTypeError (''number '' @ s) ''int'') saved))
      | _ \<Rightarrow> Inr (v, saveError (UnmarshalTypeError (describe j) ''int'') saved))"

text \<open>
  A \<^verbatim>\<open>*time.Time\<close> field: \<^verbatim>\<open>null\<close> makes the pointer nil; anything else goes to
  \<^verbatim>\<open>Time.UnmarshalJSON\<close>, which accepts only a string in RFC 3339 format.  Parsing that
  format belongs to package \<^verbatim>\<open>time\<close> and is the parameter \<open>parseTime\<close>.  The decoder hands
  \<^verbatim>\<open>Time.UnmarshalJSON\<close> the literal as it stands in the document, not its unquoted value,
  so \<open>parseTime\<close> is given the bytes between the quotes as written: an escape sequence in
  the literal reaches the time parser as a backslash and what follows it.  An error of
  \<^verbatim>\<open>Time.UnmarshalJSON\<close> ends the decoding at once.
\<close>

definition value_time ::
  "(string \<Rightarrow> 't option) \<Rightarrow> json \<Rightarrow> 't option \<Rightarrow> 'e error option \<Rightarrow> ('t option, 'e) decoded"
where
  "value_time parseTime j v saved =
     (case j of
        JNull \<Rightarrow> Inr (None, saved)
      | JString s \<Rightarrow>
          (case parseTime s of Some t \<Rightarrow> Inr (Some t, saved) | None \<Rightarrow> Inl TimeUnmarshalError)
      | JEscaped raw s \<Rightarrow>
          (case parseTime raw of Some t \<Rightarrow> Inr (Some t, saved) | None \<Rightarrow> Inl TimeUnmarshalError)
      | _ \<Rightarrow> Inl TimeUnmarshalError)"

text \<open>The loop over the members of an object, in document order; \<open>field\<close> decodes one
  member into the struct (and ignores a key that matches no field).\<close>

fun object ::
  "(string \<Rightarrow> json \<Rightarrow> 's \<Rightarrow> 'e error option \<Rightarrow> ('s, 'e) decoded) \<Rightarrow>
   (string \<times> json) list \<Rightarrow> 's \<Rightarrow> 'e error option \<Rightarrow> ('s, 'e) decoded"
where
  "object field [] v saved = Inr (v, saved)"
| "object field ((key, j) # kvs) v saved =
     (case field key j v saved of
        Inl err \<Rightarrow> Inl err
      | Inr (v', saved') \<Rightarrow> object field kvs v' saved')"

definition value_struct ::
  "(string \<Rightarrow> json \<Rightarrow> 's \<Rightarrow> 'e error option \<Rightarrow> ('s, 'e) decoded) \<Rightarrow> string \<Rightarrow>
   json \<Rightarrow> 's \<Rightarrow> 'e error option \<Rightarrow> ('s, 'e) decoded"
where
  "value_struct field typeName j v saved =
     (case j of
        JNull \<Rightarrow> Inr (v, saved)
      | JObject kvs \<Rightarrow> object field kvs v saved
      | _ \<Rightarrow> Inr (v, saveError (UnmarshalTypeError (describe j) typeName) saved))"

text \<open>
  The loop over the elements of an array decoded into a slice.  Element \<open>i\<close> is decoded
  into the slice's element \<open>i\<close> when the slice already has one (a repeated key) and into
  a zero value otherwise; the slice ends with the array's length, and an empty array
  gives an empty slice that is not nil.  What a key repeated a third time finds in the
  spare capacity of the slice is not modelled.
\<close>

fun array ::
  "(json \<Rightarrow> 'a \<Rightarrow> 'e error option \<Rightarrow> ('a, 'e) decoded) \<Rightarrow> 'a \<Rightarrow>
   json list \<Rightarrow> 'a list \<Rightarrow> 'e error option \<Rightarrow> ('a list, 'e) decoded"
where
  "array elem zero [] old saved = Inr ([], saved)"
| "array elem zero (j # js) old saved =
     (case elem j (case old of [] \<Rightarrow> zero | x # _ \<Rightarrow> x) saved of
        Inl err \<Rightarrow> Inl err
      | Inr (x', saved') \<Rightarrow>
          (case array elem zero js (tl old) saved' of
             Inl err \<Rightarrow> Inl err
           | Inr (xs', saved'') \<Rightarrow> Inr (x' # xs', saved'')))"

definition value_slice ::
  "(json \<Rightarrow> 'a \<Rightarrow> 'e error option \<Rightarrow> ('a, 'e) decoded) \<Rightarrow> 'a \<Rightarrow> string \<Rightarrow>
   json \<Rightarrow> 'a list option \<Rightarrow> 'e error option \<Rightarrow> ('a list option, 'e) decoded"
where
  "value_slice elem zero typeName j v saved =
     (case j of
        JNull \<Rightarrow> Inr (None, saved)
      | JArray js \<Rightarrow> into Some (array elem zero js (case v of None \<Rightarrow> [] | Some xs \<Rightarrow> xs) saved)
      | _ \<Rightarrow> Inr (v, saveError (UnmarshalTypeError (describe j) typeName) saved))"

subsection \<open>The decoders of this file's types\<close>

text \<open>The field names are the \<^verbatim>\<open>json\<close> tags of lines 13--41; \<^verbatim>\<open>omitempty\<close> plays no
  part in decoding.\<close>

definition field_ArgoTunnelConnection ::
  "string \<Rightarrow> json \<Rightarrow> ArgoTunnelConnection \<Rightarrow> 'e error option \<Rightarrow> (ArgoTunnelConnection, 'e) decoded"
where
  "field_ArgoTunnelConnection key j v saved =
     (case findField [''colo_name'', ''uuid'', ''is_pending_reconnect''] key of
        None \<Rightarrow> Inr (v, saved)
      | Some name \<Rightarrow>
          if name = ''colo_name'' then
            into (\<lambda>x. v\<lparr>ColoName := x\<rparr>) (value_string j (ColoName v) saved)
          else if name = ''uuid'' then
            into (\<lambda>x. v\<lparr>UUID := x\<rparr>) (value_string j (UUID v) saved)
          else
            into (\<lambda>x. v\<lparr>IsPendingReconnect := x\<rparr>) (value_bool j (IsPendingReconnect v) saved))"

definition value_ArgoTunnelConnection ::
  "json \<Rightarrow> ArgoTunnelConnection \<Rightarrow> 'e error option \<Rightarrow> (ArgoTunnelConnection, 'e) decoded"
where
  "value_ArgoTunnelConnection =
     value_struct field_ArgoTunnelConnection ''cloudflare.ArgoTunnelConnection''"

definition field_ArgoTunnel ::
  "(string \<Rightarrow> 't option) \<Rightarrow> string \<Rightarrow> json \<Rightarrow> 't ArgoTunnel \<Rightarrow> 'e error option \<Rightarrow>
   ('t ArgoTunnel, 'e) decoded"
where
  "field_ArgoTunnel parseTime key j v saved =
     (case findField
        [''id'', ''name'', ''tunnel_secret'', ''created_at'', ''deleted_at'', ''connections''] key of
        None \<Rightarrow> Inr (v, saved)
      | Some name \<Rightarrow>
          if name = ''id'' then
            into (\<lambda>x. v\<lparr>ID := x\<rparr>) (value_string j (ID v) saved)
          else if name = ''name'' then
            into (\<lambda>x. v\<lparr>Name := x\<rparr>) (value_string j (Name v) saved)
          else if name = ''tunnel_secret'' then
            into (\<lambda>x. v\<lparr>Secret := x\<rparr>) (value_string j (Secret v) saved)
          else if name = ''created_at'' then
            into (\<lambda>x. v\<lparr>CreatedAt := x\<rparr>) (value_time parseTime j (CreatedAt v) saved)
          else if name = ''deleted_at'' then
            into (\<lambda>x. v\<lparr>DeletedAt := x\<rparr>) (value_time parseTime j (DeletedAt v) saved)
          else
            into (\<lambda>x. v\<lparr>Connections := x\<rparr>)
              (value_slice value_ArgoTunnelConnection zero_ArgoTunnelConnection
                 ''[]cloudflare.ArgoTunnelConnection'' j (Connections v) saved))"

definition value_ArgoTunnel ::
  "(string \<Rightarrow> 't option) \<Rightarrow> json \<Rightarrow> 't ArgoTunnel \<Rightarrow> 'e error option \<Rightarrow>
   ('t ArgoTunnel, 'e) decoded"
where
  "value_ArgoTunnel parseTime = value_struct (field_ArgoTunnel parseTime) ''cloudflare.ArgoTunnel''"

definition field_ResponseInfo ::
  "string \<Rightarrow> json \<Rightarrow> ResponseInfo \<Rightarrow> 'e error option \<Rightarrow> (ResponseInfo, 'e) decoded"
where
  "field_ResponseInfo key j v saved =
     (case findField [''code'', ''message''] key of
        None \<Rightarrow> Inr (v, saved)
      | Some name \<Rightarrow>
          if name = ''code'' then into (\<lambda>x. v\<lparr>Code := x\<rparr>) (value_int j (Code v) saved)
          else into (\<lambda>x. v\<lparr>Message := x\<rparr>) (value_string j (Message v) saved))"

definition value_ResponseInfo ::
  "json \<Rightarrow> ResponseInfo \<Rightarrow> 'e error option \<Rightarrow> (ResponseInfo, 'e) decoded"
where
  "value_ResponseInfo = value_struct field_ResponseInfo ''cloudflare.ResponseInfo''"

text \<open>The promoted fields of the embedded \<^verbatim>\<open>Response\<close>, for a key already matched to
  one of \<^verbatim>\<open>success\<close>, \<^verbatim>\<open>errors\<close>, \<^verbatim>\<open>messages\<close>.\<close>

definition field_Response ::
  "string \<Rightarrow> json \<Rightarrow> 'z Response_scheme \<Rightarrow> 'e error option \<Rightarrow> ('z Response_scheme, 'e) decoded"
where
  "field_Response name j v saved =
     (if name = ''success'' then
        into (\<lambda>x. v\<lparr>Success := x\<rparr>) (value_bool j (Success v) saved)
      else if name = ''errors'' then
        into (\<lambda>x. v\<lparr>Errors := x\<rparr>)
          (value_slice value_ResponseInfo zero_ResponseInfo ''[]cloudflare.ResponseInfo''
             j (Errors v) saved)
      else
        into (\<lambda>x. v\<lparr>Messages := x\<rparr>)
          (value_slice value_ResponseInfo zero_ResponseInfo ''[]cloudflare.ResponseInfo''
             j (Messages v) saved))"

definition field_ArgoTunnelsDetailResponse ::
  "(string \<Rightarrow> 't option) \<Rightarrow> string \<Rightarrow> json \<Rightarrow> 't ArgoTunnelsDetailResponse \<Rightarrow>
   'e error option \<Rightarrow> ('t ArgoTunnelsDetailResponse, 'e) decoded"
where
  "field_ArgoTunnelsDetailResponse parseTime key j v saved =
     (case findField [''result'', ''success'', ''errors'', ''messages''] key of
        None \<Rightarrow> Inr (v, saved)
      | Some name \<Rightarrow>
          if name = ''result'' then
            into (\<lambda>x. v\<lparr>ArgoTunnelsDetailResponse.Result := x\<rparr>)
              (value_slice (value_ArgoTunnel parseTime) zero_ArgoTunnel ''[]cloudflare.ArgoTunnel''
                 j (ArgoTunnelsDetailResponse.Result v) saved)
          else field_Response name j v saved)"

definition value_ArgoTunnelsDetailResponse ::
  "(string \<Rightarrow> 't option) \<Rightarrow> json \<Rightarrow> 't ArgoTunnelsDetailResponse \<Rightarrow>
   'e error option \<Rightarrow> ('t ArgoTunnelsDetailResponse, 'e) decoded"
where
  "value_ArgoTunnelsDetailResponse parseTime =
     value_struct (field_ArgoTunnelsDetailResponse parseTime)
       ''cloudflare.ArgoTunnelsDetailResponse''"

definition field_ArgoTunnelDetailResponse ::
  "(string \<Rightarrow> 't option) \<Rightarrow> string \<Rightarrow> json \<Rightarrow> 't ArgoTunnelDetailResponse \<Rightarrow>
   'e error option \<Rightarrow> ('t ArgoTunnelDetailResponse, 'e) decoded"
where
  "field_ArgoTunnelDetailResponse parseTime key j v saved =
     (case findField [''result'', ''success'', ''errors'', ''messages''] key of
        None \<Rightarrow> Inr (v, saved)
      | Some name \<Rightarrow>
          if name = ''result'' then
            into (\<lambda>x. v\<lparr>Result := x\<rparr>) (value_ArgoTunnel parseTime j (Result v) saved)
          else field_Response name j v saved)"

definition value_ArgoTunnelDetailResponse ::
  "(string \<Rightarrow> 't option) \<Rightarrow> json \<Rightarrow> 't ArgoTunnelDetailResponse \<Rightarrow>
   'e error option \<Rightarrow> ('t ArgoTunnelDetailResponse, 'e) decoded"
where
  "value_ArgoTunnelDetailResponse parseTime =
     value_struct (field_ArgoTunnelDetailResponse parseTime)
       ''cloudflare.ArgoTunnelDetailResponse''"

text \<open>
  \<^verbatim>\<open>json.Unmarshal(data, &v)\<close>: the scanner checks the whole input first (parameter
  \<open>scan\<close>, \<^term>\<open>None\<close> for a syntax error), then the value is decoded into \<open>v\<close>; an abort
  or a saved error is the returned error.
\<close>

definition Unmarshal ::
  "(string \<Rightarrow> json option) \<Rightarrow> (json \<Rightarrow> 'v \<Rightarrow> 'e error option \<Rightarrow> ('v, 'e) decoded) \<Rightarrow>
   string \<Rightarrow> 'v \<Rightarrow> 'e error + 'v"
where
  "Unmarshal scan decode data v =
     (case scan data of
        None \<Rightarrow> Inl SyntaxError
      | Some j \<Rightarrow>
          (case decode j v None of
             Inl err \<Rightarrow> Inl err
           | Inr (v', Some err) \<Rightarrow> Inl err
           | Inr (v', None) \<Rightarrow> Inr v'))"

subsection \<open>Encoding the request body\<close>

text \<open>
  Modelled from the spec: \<^verbatim>\<open>makeRequestContext\<close> is declared outside this file and
  receives the body as a Go value; the spec says the request body of Create is a JSON
  object, so the value is serialised with \<^verbatim>\<open>json.Marshal\<close>.  A struct is written as an
  object with its fields in declaration order under the names of its \<^verbatim>\<open>json\<close> tags (lines
  13--27); a field tagged \<^verbatim>\<open>omitempty\<close> is left out when it is the empty string, a nil
  pointer or a slice of length 0.  \<^verbatim>\<open>Time.MarshalJSON\<close> belongs to package \<^verbatim>\<open>time\<close> and is
  the parameter \<open>formatTime\<close> (\<^term>\<open>None\<close> when it reports an error).
\<close>

definition marshal_ArgoTunnelConnection :: "ArgoTunnelConnection \<Rightarrow> json" where
  "marshal_ArgoTunnelConnection c =
     JObject [(''colo_name'', JString (ColoName c)),
              (''uuid'', JString (UUID c)),
              (''is_pending_reconnect'', JBool (IsPendingReconnect c))]"

definition marshal_time :: "('t \<Rightarrow> string option) \<Rightarrow> string \<Rightarrow> 't option \<Rightarrow> (string \<times> json) list option"
where
  "marshal_time formatTime key p =
     (case p of
        None \<Rightarrow> Some []
      | Some t \<Rightarrow> (case formatTime t of None \<Rightarrow> None | Some s \<Rightarrow> Some [(key, JString s)]))"

definition marshal_ArgoTunnel :: "('t \<Rightarrow> string option) \<Rightarrow> 't ArgoTunnel \<Rightarrow> json option" where
  "marshal_ArgoTunnel formatTime v =
     (case marshal_time formatTime ''created_at'' (CreatedAt v) of
        None \<Rightarrow> None
      | Some created \<Rightarrow>
          (case marshal_time formatTime ''deleted_at'' (DeletedAt v) of
             None \<Rightarrow> None
           | Some deleted \<Rightarrow>
               Some (JObject
                 ((if ID v = [] then [] else [(''id'', JString (ID v))]) @
                  (if Name v = [] then [] else [(''name'', JString (Name v))]) @
                  (if Secret v = [] then [] else [(''tunnel_secret'', JString (Secret v))]) @
                  created @ deleted @
                  (case Connections v of
                     None \<Rightarrow> []
                   | Some cs \<Rightarrow>
                       if cs = [] then []
                       else [(''connections'', JArray (map marshal_ArgoTunnelConnection cs))])))))"

text \<open>
  The compact text of a JSON value.  A string is quoted the way \<^verbatim>\<open>json.Marshal\<close> does it
  by default: quote and backslash get a backslash, newline, carriage return and tab their
  short escapes, the other control characters and \<^verbatim>\<open><\<close>, \<^verbatim>\<open>>\<close>, \<^verbatim>\<open>&\<close> a \<^verbatim>\<open>\u00XX\<close> escape,
  a byte that starts no valid UTF-8 sequence becomes \<^verbatim>\<open>\ufffd\<close>, and U+2028 and U+2029
  are escaped.
\<close>

definition hexDigit :: "nat \<Rightarrow> char" where
  "hexDigit n = ''0123456789abcdef'' ! (n mod 16)"

definition htmlSafe :: "char \<Rightarrow> bool" where
  "htmlSafe c \<longleftrightarrow>
     (32::nat) \<le> of_char c \<and> (of_char c :: nat) < 128 \<and>
     c \<noteq> CHR 0x22 \<and> c \<noteq> CHR 0x5C \<and> c \<noteq> CHR ''<'' \<and> c \<noteq> CHR ''>'' \<and> c \<noteq> CHR ''&''"

definition between :: "nat \<Rightarrow> nat \<Rightarrow> string \<Rightarrow> nat \<Rightarrow> bool" where
  "between lo hi bs i \<longleftrightarrow> i < length bs \<and> lo \<le> of_char (bs ! i) \<and> (of_char (bs ! i) :: nat) \<le> hi"

text \<open>The length of the valid UTF-8 sequence at the head of \<open>bs\<close>, or 0.\<close>

definition runeLen :: "string \<Rightarrow> nat" where
  "runeLen bs =
     (if between 0 127 bs 0 then 1
      else if between 194 223 bs 0 \<and> between 128 191 bs 1 then 2
      else if (between 224 224 bs 0 \<and> between 160 191 bs 1 \<or>
               between 225 236 bs 0 \<and> between 128 191 bs 1 \<or>
               between 237 237 bs 0 \<and> between 128 159 bs 1 \<or>
               between 238 239 bs 0 \<and> between 128 191 bs 1) \<and> between 128 191 bs 2 then 3
      else if (between 240 240 bs 0 \<and> between 144 191 bs 1 \<or>
               between 241 243 bs 0 \<and> between 128 191 bs 1 \<or>
               between 244 244 bs 0 \<and> between 128 143 bs 1) \<and>
              between 128 191 bs 2 \<and> between 128 191 bs 3 then 4
      else 0)"

fun escape :: "string \<Rightarrow> string" where
  "escape [] = []"
| "escape (b # bs) =
     (if (of_char b :: nat) < 128 then
        (if htmlSafe b then b # escape bs
         else if b = CHR 0x22 \<or> b = CHR 0x5C then CHR 0x5C # b # escape bs
         else if b = CHR 0x0A then CHR 0x5C # CHR ''n'' # escape bs
         else if b = CHR 0x0D then CHR 0x5C # CHR ''r'' # escape bs
         else if b = CHR 0x09 then CHR 0x5C # CHR ''t'' # escape bs
         else CHR 0x5C # ''u00'' @ [hexDigit (of_char b div 16), hexDigit (of_char b)] @ escape bs)
      else if runeLen (b # bs) = 0 then CHR 0x5C # ''ufffd'' @ escape bs
      else if b = CHR 0xE2 \<and> take 2 bs = [CHR 0x80, CHR 0xA8]
        then CHR 0x5C # ''u2028'' @ escape (drop 2 bs)
      else if b = CHR 0xE2 \<and> take 2 bs = [CHR 0x80, CHR 0xA9]
        then CHR 0x5C # ''u2029'' @ escape (drop 2 bs)
      else take (runeLen (b # bs)) (b # bs) @ escape (drop (runeLen (b # bs) - 1) bs))"

definition encodeString :: "string \<Rightarrow> string" where
  "encodeString s = CHR 0x22 # escape s @ [CHR 0x22]"

fun commas :: "string list \<Rightarrow> string" where
  "commas [] = []"
| "commas [x] = x"
| "commas (x # y # ys) = x @ '','' @ commas (y # ys)"

fun render :: "json \<Rightarrow> string" where
  "render JNull = ''null''"
| "render (JBool b) = (if b then ''true'' else ''false'')"
| "render (JNumber n) = n"
| "render (JString s) = encodeString s"
| "render (JEscaped raw s) = encodeString s"
| "render (JArray js) = ''['' @ commas (map render js) @ '']''"
| "render (JObject kvs) =
     ''{'' @ commas (map (\<lambda>kv. encodeString (fst kv) @ '':'' @ render (snd kv)) kvs) @ ''}''"

definition Marshal :: "('t \<Rightarrow> string option) \<Rightarrow> 't ArgoTunnel \<Rightarrow> string option" where
  "Marshal formatTime v = map_option render (marshal_ArgoTunnel formatTime v)"

subsection \<open>Formatting the URI\<close>

text \<open>
  \<^verbatim>\<open>fmt.Sprintf\<close> with string operands.  The verbs \<^verbatim>\<open>%s\<close> and \<^verbatim>\<open>%v\<close> copy the next
  operand unchanged and \<^verbatim>\<open>%%\<close> is a percent sign; a verb without an operand and any other
  verb give \<^verbatim>\<open>fmt\<close>'s diagnostic text.  Flags, widths and the other verbs that are valid
  for strings are not interpreted; the formats of this file use \<^verbatim>\<open>%s\<close> only.
\<close>

fun Sprintf :: "string \<Rightarrow> string list \<Rightarrow> string" where
  "Sprintf [] args =
     (if args = [] then []
      else ''%!(EXTRA '' @ commas (map (\<lambda>a. ''string='' @ a) args) @ '')'')"
| "Sprintf [c] args = (if c = CHR ''%'' then ''%!(NOVERB)'' else [c]) @ Sprintf [] args"
| "Sprintf (c # v # rest) args =
     (if c \<noteq> CHR ''%'' then c # Sprintf (v # rest) args
      else if v = CHR ''%'' then CHR ''%'' # Sprintf rest args
      else
        (case args of
           [] \<Rightarrow> ''%!'' @ [v] @ ''(MISSING)'' @ Sprintf rest []
         | a # as \<Rightarrow>
             (if v = CHR ''s'' \<or> v = CHR ''v'' then a
              else ''%!'' @ [v] @ ''(string='' @ a @ '')'') @ Sprintf rest as))"

subsection \<open>The collaborators\<close>

text \<open>
  A request as \<^verbatim>\<open>makeRequestContext\<close> receives it: method, URI and the body value
  (\<^term>\<open>None\<close> for Go's \<^verbatim>\<open>nil\<close>).  The cancellation context is handed through unchanged and
  is part of the transport.
\<close>

record 't request =
  "method" :: string
  uri :: string
  params :: "'t ArgoTunnel option"

text \<open>
  What the operations use and this file does not declare: the transport helper
  \<^verbatim>\<open>makeRequestContext\<close> (its error or the response bytes), the two message constants
  \<^verbatim>\<open>errMakeRequestError\<close> and \<^verbatim>\<open>errUnmarshalError\<close>, and from the standard library the JSON
  scanner and the RFC 3339 parser.
\<close>

record ('e, 't) API =
  makeRequestContext :: "'t request \<Rightarrow> 'e + string"
  errMakeRequestError :: string
  errUnmarshalError :: string
  scan :: "string \<Rightarrow> json option"
  parseTime :: "string \<Rightarrow> 't option"

subsection \<open>The five operations (lines 43--140)\<close>

text \<open>
  Each operation returns the requests it has issued, then its Go results: the value
  (where there is one) and the error, \<^term>\<open>None\<close> for \<^verbatim>\<open>nil\<close>.
\<close>

definition ArgoTunnels ::
  "('e, 't) API \<Rightarrow> string \<Rightarrow> 't request list \<times> 't ArgoTunnel list option \<times> 'e error option"
where
  "ArgoTunnels api accountID =
     (let uri = ''/accounts/'' @ accountID @ ''/tunnels'';
          req = \<lparr>method = ''GET'', uri = uri, params = None\<rparr>
      in ([req],
          (case makeRequestContext api req of
             Inl err \<Rightarrow> (Some [], Some (Wrap (TransportFailure err) (errMakeRequestError api)))
           | Inr res \<Rightarrow>
               (case Unmarshal (scan api) (value_ArgoTunnelsDetailResponse (parseTime api)) res
                       zero_ArgoTunnelsDetailResponse of
                  Inl err \<Rightarrow> (Some [], Some (Wrap err (errUnmarshalError api)))
                | Inr argoDetailsResponse \<Rightarrow>
                    (ArgoTunnelsDetailResponse.Result argoDetailsResponse, None)))))"

definition ArgoTunnel ::
  "('e, 't) API \<Rightarrow> string \<Rightarrow> string \<Rightarrow> 't request list \<times> 't ArgoTunnel \<times> 'e error option"
where
  "ArgoTunnel api accountID tunnelUUID =
     (let uri = Sprintf ''/accounts/%s/tunnels/%s'' [accountID, tunnelUUID];
          req = \<lparr>method = ''GET'', uri = uri, params = None\<rparr>
      in ([req],
          (case makeRequestContext api req of
             Inl err \<Rightarrow> (zero_ArgoTunnel, Some (Wrap (TransportFailure err) (errMakeRequestError api)))
           | Inr res \<Rightarrow>
               (case Unmarshal (scan api) (value_ArgoTunnelDetailResponse (parseTime api)) res
                       zero_ArgoTunnelDetailResponse of
                  Inl err \<Rightarrow> (zero_ArgoTunnel, Some (Wrap err (errUnmarshalError api)))
                | Inr argoDetailsResponse \<Rightarrow> (Result argoDetailsResponse, None)))))"

definition CreateArgoTunnel ::
  "('e, 't) API \<Rightarrow> string \<Rightarrow> string \<Rightarrow> string \<Rightarrow>
   't request list \<times> 't ArgoTunnel \<times> 'e error option"
where
  "CreateArgoTunnel api accountID name secret =
     (let uri = ''/accounts/'' @ accountID @ ''/tunnels'';
          tunnel = zero_ArgoTunnel\<lparr>Name := name, Secret := secret\<rparr>;
          req = \<lparr>method = ''POST'', uri = uri, params = Some tunnel\<rparr>
      in ([req],
          (case makeRequestContext api req of
             Inl err \<Rightarrow> (zero_ArgoTunnel, Some (Wrap (TransportFailure err) (errMakeRequestError api)))
           | Inr res \<Rightarrow>
               (case Unmarshal (scan api) (value_ArgoTunnelDetailResponse (parseTime api)) res
                       zero_ArgoTunnelDetailResponse of
                  Inl err \<Rightarrow> (zero_ArgoTunnel, Some (Wrap err (errUnmarshalError api)))
                | Inr argoDetailsResponse \<Rightarrow> (Result argoDetailsResponse, None)))))"

definition DeleteArgoTunnel ::
  "('e, 't) API \<Rightarrow> string \<Rightarrow> string \<Rightarrow> 't request list \<times> 'e error option"
where
  "DeleteArgoTunnel api accountID tunnelUUID =
     (let uri = Sprintf ''/accounts/%s/tunnels/%s'' [accountID, tunnelUUID];
          req = \<lparr>method = ''DELETE'', uri = uri, params = None\<rparr>
      in ([req],
          (case makeRequestContext api req of
             Inl err \<Rightarrow> Some (Wrap (TransportFailure err) (errMakeRequestError api))
           | Inr res \<Rightarrow>
               (case Unmarshal (scan api) (value_ArgoTunnelDetailResponse (parseTime api)) res
                       zero_ArgoTunnelDetailResponse of
                  Inl err \<Rightarrow> Some (Wrap err (errUnmarshalError api))
                | Inr argoDetailsResponse \<Rightarrow> None))))"

definition CleanupArgoTunnelConnections ::
  "('e, 't) API \<Rightarrow> string \<Rightarrow> string \<Rightarrow> 't request list \<times> 'e error option"
where
  "CleanupArgoTunnelConnections api accountID tunnelUUID =
     (let uri = Sprintf ''/accounts/%s/tunnels/%s/connections'' [accountID, tunnelUUID];
          req = \<lparr>method = ''DELETE'', uri = uri, params = None\<rparr>
      in ([req],
          (case makeRequestContext api req of
             Inl err \<Rightarrow> Some (Wrap (TransportFailure err) (errMakeRequestError api))
           | Inr res \<Rightarrow>
               (case Unmarshal (scan api) (value_ArgoTunnelDetailResponse (parseTime api)) res
                       zero_ArgoTunnelDetailResponse of
                  Inl err \<Rightarrow> Some (Wrap err (errUnmarshalError api))
                | Inr argoDetailsResponse \<Rightarrow> None))))"

subsection \<open>Envelope shapes\<close>

text \<open>
  What a response must look like for the decoder to accept it.  A member is judged by the
  field its key is matched to; a member whose key matches no field is free.  The
  accepting shapes allow \<^verbatim>\<open>null\<close> everywhere, repeated keys and keys in another case.
  A timestamp is judged by its literal as written, which is what the time parser is given.
\<close>

definition string_or_null :: "json \<Rightarrow> bool" where
  "string_or_null j =
     (case j of JNull \<Rightarrow> True | JString s \<Rightarrow> True | JEscaped raw s \<Rightarrow> True | _ \<Rightarrow> False)"

definition bool_or_null :: "json \<Rightarrow> bool" where
  "bool_or_null j = (case j of JNull \<Rightarrow> True | JBool b \<Rightarrow> True | _ \<Rightarrow> False)"

definition int_or_null :: "json \<Rightarrow> bool" where
  "int_or_null j = (case j of JNull \<Rightarrow> True | JNumber s \<Rightarrow> ParseInt s \<noteq> None | _ \<Rightarrow> False)"


definition array_or_null :: "(json \<Rightarrow> bool) \<Rightarrow> json \<Rightarrow> bool" where
  "array_or_null elem j = (case j of JNull \<Rightarrow> True | JArray js \<Rightarrow> list_all elem js | _ \<Rightarrow> False)"

definition member_ok :: "string list \<Rightarrow> (string \<Rightarrow> json \<Rightarrow> bool) \<Rightarrow> string \<times> json \<Rightarrow> bool" where
  "member_ok names typ kv =
     (case findField names (fst kv) of None \<Rightarrow> True | Some name \<Rightarrow> typ name (snd kv))"

definition object_or_null :: "string list \<Rightarrow> (string \<Rightarrow> json \<Rightarrow> bool) \<Rightarrow> json \<Rightarrow> bool" where
  "object_or_null names typ j =
     (case j of JNull \<Rightarrow> True | JObject kvs \<Rightarrow> list_all (member_ok names typ) kvs | _ \<Rightarrow> False)"

definition connection_names :: "string list" where
  "connection_names = [''colo_name'', ''uuid'', ''is_pending_reconnect'']"

definition tunnel_names :: "string list" where
  "tunnel_names =
     [''id'', ''name'', ''tunnel_secret'', ''created_at'', ''deleted_at'', ''connections'']"

definition info_names :: "string list" where
  "info_names = [''code'', ''message'']"

definition envelope_names :: "string list" where
  "envelope_names = [''result'', ''success'', ''errors'', ''messages'']"





definition info_typ :: "string \<Rightarrow> json \<Rightarrow> bool" where
  "info_typ name j = (if name = ''code'' then int_or_null j else string_or_null j)"

definition info_shape :: "json \<Rightarrow> bool" where
  "info_shape = object_or_null info_names info_typ"

definition response_typ :: "string \<Rightarrow> json \<Rightarrow> bool" where
  "response_typ name j =
     (if name = ''success'' then bool_or_null j else array_or_null info_shape j)"





subsection \<open>What the spec expects of a decoded response\<close>

text \<open>
  The spec's reading of a response, written without the decoder: a field of the Go value
  is the member of that name in the JSON object, and the zero value when the object has no
  such member.  A string is read by its value, however the literal is written; a timestamp
  is read from a literal written without escapes.
\<close>

definition members :: "json \<Rightarrow> (string \<times> json) list" where
  "members j = (case j of JObject kvs \<Rightarrow> kvs | _ \<Rightarrow> [])"

definition json_string :: "json option \<Rightarrow> string" where
  "json_string m =
     (case m of Some (JString s) \<Rightarrow> s | Some (JEscaped raw s) \<Rightarrow> s | _ \<Rightarrow> [])"

definition json_bool :: "json option \<Rightarrow> bool" where
  "json_bool m = (case m of Some (JBool b) \<Rightarrow> b | _ \<Rightarrow> False)"

definition json_time :: "(string \<Rightarrow> 't option) \<Rightarrow> json option \<Rightarrow> 't option" where
  "json_time pt m = (case m of Some (JString s) \<Rightarrow> pt s | _ \<Rightarrow> None)"

definition json_list :: "(json \<Rightarrow> 'a) \<Rightarrow> json option \<Rightarrow> 'a list option" where
  "json_list elem m = (case m of Some (JArray js) \<Rightarrow> Some (map elem js) | _ \<Rightarrow> None)"

definition connection_of_json :: "json \<Rightarrow> ArgoTunnelConnection" where
  "connection_of_json j =
     \<lparr>ColoName = json_string (map_of (members j) ''colo_name''),
      UUID = json_string (map_of (members j) ''uuid''),
      IsPendingReconnect = json_bool (map_of (members j) ''is_pending_reconnect'')\<rparr>"

definition tunnel_of_json :: "(string \<Rightarrow> 't option) \<Rightarrow> json \<Rightarrow> 't ArgoTunnel" where
  "tunnel_of_json pt j =
     \<lparr>ID = json_string (map_of (members j) ''id''),
      Name = json_string (map_of (members j) ''name''),
      Secret = json_string (map_of (members j) ''tunnel_secret''),
      CreatedAt = json_time pt (map_of (members j) ''created_at''),
      DeletedAt = json_time pt (map_of (members j) ''deleted_at''),
      Connections = json_list connection_of_json (map_of (members j) ''connections'')\<rparr>"

text \<open>
  The documented shape of a response: every object names each member once, a member that
  belongs to a field carries the field's documented name, and a member that is present
  has a value of the documented JSON type (no \<^verbatim>\<open>null\<close>), a timestamp being a literal
  written without escapes that the time parser accepts.  Members that belong to no
  field are free.  The status members of the envelope only have to be acceptable.
\<close>

definition exact_keys :: "string list \<Rightarrow> (string \<times> json) list \<Rightarrow> bool" where
  "exact_keys names kvs \<longleftrightarrow>
     distinct (map fst kvs) \<and>
     list_all (\<lambda>key. key \<in> set names \<or> findField names key = None) (map fst kvs)"

definition is_string :: "json \<Rightarrow> bool" where
  "is_string j = (case j of JString s \<Rightarrow> True | JEscaped raw s \<Rightarrow> True | _ \<Rightarrow> False)"

definition is_bool :: "json \<Rightarrow> bool" where
  "is_bool j = (case j of JBool b \<Rightarrow> True | _ \<Rightarrow> False)"

definition is_time :: "(string \<Rightarrow> 't option) \<Rightarrow> json \<Rightarrow> bool" where
  "is_time pt j = (case j of JString s \<Rightarrow> pt s \<noteq> None | _ \<Rightarrow> False)"

definition is_array :: "(json \<Rightarrow> bool) \<Rightarrow> json \<Rightarrow> bool" where
  "is_array elem j = (case j of JArray js \<Rightarrow> list_all elem js | _ \<Rightarrow> False)"

definition is_object :: "string list \<Rightarrow> (string \<Rightarrow> json \<Rightarrow> bool) \<Rightarrow> json \<Rightarrow> bool" where
  "is_object names typ j =
     (case j of
        JObject kvs \<Rightarrow> exact_keys names kvs \<and> list_all (member_ok names typ) kvs
      | _ \<Rightarrow> False)"

definition documented_connection_typ :: "string \<Rightarrow> json \<Rightarrow> bool" where
  "documented_connection_typ name j =
     (if name = ''is_pending_reconnect'' then is_bool j else is_string j)"

definition documented_connection :: "json \<Rightarrow> bool" where
  "documented_connection = is_object connection_names documented_connection_typ"

definition documented_tunnel_typ :: "(string \<Rightarrow> 't option) \<Rightarrow> string \<Rightarrow> json \<Rightarrow> bool" where
  "documented_tunnel_typ pt name j =
     (if name = ''created_at'' \<or> name = ''deleted_at'' then is_time pt j
      else if name = ''connections'' then is_array documented_connection j
      else is_string j)"

definition documented_tunnel :: "(string \<Rightarrow> 't option) \<Rightarrow> json \<Rightarrow> bool" where
  "documented_tunnel pt = is_object tunnel_names (documented_tunnel_typ pt)"

definition documented_single_typ :: "(string \<Rightarrow> 't option) \<Rightarrow> string \<Rightarrow> json \<Rightarrow> bool" where
  "documented_single_typ pt name j =
     (if name = ''result'' then documented_tunnel pt j else response_typ name j)"

definition documented_single_envelope :: "(string \<Rightarrow> 't option) \<Rightarrow> json \<Rightarrow> bool" where
  "documented_single_envelope pt = is_object envelope_names (documented_single_typ pt)"

definition json_tunnel :: "(string \<Rightarrow> 't option) \<Rightarrow> json option \<Rightarrow> 't ArgoTunnel" where
  "json_tunnel pt m = (case m of Some j \<Rightarrow> tunnel_of_json pt j | None \<Rightarrow> zero_ArgoTunnel)"

definition nullable_multi_typ :: "(string \<Rightarrow> 't option) \<Rightarrow> string \<Rightarrow> json \<Rightarrow> bool" where
  "nullable_multi_typ pt name j =
     (if name = ''result'' then j = JNull \<or> is_array (documented_tunnel pt) j
      else response_typ name j)"

definition nullable_multi_envelope :: "(string \<Rightarrow> 't option) \<Rightarrow> json \<Rightarrow> bool" where
  "nullable_multi_envelope pt = is_object envelope_names (nullable_multi_typ pt)"

text \<open>The members of an envelope that the decoder stores in \<^verbatim>\<open>Result\<close>, in document
  order: those whose key is matched to \<^verbatim>\<open>result\<close>, in whatever case it is written.\<close>

definition result_members :: "(string \<times> json) list \<Rightarrow> json list" where
  "result_members kvs =
     map snd (filter (\<lambda>kv. findField envelope_names (fst kv) = Some ''result'') kvs)"

text \<open>A decoder has failed when it has aborted or holds a saved error; \<^verbatim>\<open>json.Unmarshal\<close>
  then returns an error.  Then the errors of \<^verbatim>\<open>encoding/json\<close>, as opposed to those of
  the transport and to wrapped errors; and what it means for a decoder's saved error and
  result to hold only such errors.\<close>

definition failed :: "('a, 'e) decoded \<Rightarrow> bool" where
  "failed r = (case r of Inl err \<Rightarrow> True | Inr (v, saved) \<Rightarrow> saved \<noteq> None)"

definition json_error :: "'e error \<Rightarrow> bool" where
  "json_error err =
     (case err of
        SyntaxError \<Rightarrow> True
      | UnmarshalTypeError v t \<Rightarrow> True
      | TimeUnmarshalError \<Rightarrow> True
      | _ \<Rightarrow> False)"

definition saved_json :: "'e error option \<Rightarrow> bool" where
  "saved_json saved = (case saved of None \<Rightarrow> True | Some err \<Rightarrow> json_error err)"

definition decoded_json :: "('a, 'e) decoded \<Rightarrow> bool" where
  "decoded_json r = (case r of Inl err \<Rightarrow> json_error err | Inr (v, saved) \<Rightarrow> saved_json saved)"

subsection \<open>Example collaborators and documents\<close>

text \<open>
  Concrete collaborators for the examples: a transport with a fixed outcome, the two
  message constants, a scanner that knows the example documents (and rejects every other
  input), and a time parser that knows one timestamp.
\<close>

definition doc_created :: string where
  \<open>doc_created = ''{"result":{"id":"t1","name":"mytunnel"},"success":true}''\<close>

definition json_created :: json where
  "json_created =
     JObject [(''result'', JObject [(''id'', JString ''t1''), (''name'', JString ''mytunnel'')]),
              (''success'', JBool True)]"

definition doc_failed :: string where
  \<open>doc_failed = ''{"result":null,"success":false,"errors":[{"code":1000,"message":"not found"}],"messages":[]}''\<close>

definition json_failed :: json where
  "json_failed =
     JObject [(''result'', JNull), (''success'', JBool False),
              (''errors'', JArray [JObject [(''code'', JNumber ''1000''),
                                           (''message'', JString ''not found'')]]),
              (''messages'', JArray [])]"

definition doc_list :: string where
  \<open>doc_list = ''{"result":[{"id":"t1"},{"id":"t2","created_at":"2021-01-01T00:00:00Z","connections":[{"colo_name":"DFW","uuid":"c1","is_pending_reconnect":false}]}],"success":true}''\<close>

definition json_list_doc :: json where
  "json_list_doc =
     JObject [(''result'', JArray
                [JObject [(''id'', JString ''t1'')],
                 JObject [(''id'', JString ''t2''),
                          (''created_at'', JString ''2021-01-01T00:00:00Z''),
                          (''connections'', JArray
                             [JObject [(''colo_name'', JString ''DFW''),
                                       (''uuid'', JString ''c1''),
                                       (''is_pending_reconnect'', JBool False)]])]]),
              (''success'', JBool True)]"

definition doc_bare_connection :: string where
  \<open>doc_bare_connection = ''{"result":{"id":"t1","connections":[{}]},"success":true}''\<close>

definition json_bare_connection :: json where
  "json_bare_connection =
     JObject [(''result'', JObject [(''id'', JString ''t1''),
                                    (''connections'', JArray [JObject []])]),
              (''success'', JBool True)]"

definition doc_no_result :: string where
  \<open>doc_no_result = ''{"success":true}''\<close>

definition json_no_result :: json where
  "json_no_result = JObject [(''success'', JBool True)]"

definition doc_mismatch :: string where
  \<open>doc_mismatch = ''{"result":"oops"}''\<close>

definition json_mismatch :: json where
  "json_mismatch = JObject [(''result'', JString ''oops'')]"

text \<open>A tunnel whose identifier stands under the key \<^verbatim>\<open>ID\<close>, and one whose timestamp is
  written with the escape of U+005A for its last letter \<^verbatim>\<open>Z\<close>; the same tunnel in a list.\<close>

definition doc_upper_key :: string where
  \<open>doc_upper_key = ''{"result":{"ID":"t1"},"success":true}''\<close>

definition json_upper_key :: json where
  "json_upper_key =
     JObject [(''result'', JObject [(''ID'', JString ''t1'')]), (''success'', JBool True)]"

definition escaped_time :: string where
  "escaped_time = ''2021-01-01T00:00:00'' @ [CHR 0x5C] @ ''u005a''"

definition doc_escaped_time :: string where
  \<open>doc_escaped_time =
     ''{"result":{"id":"t1","created_at":"'' @ escaped_time @ ''"},"success":true}''\<close>

definition json_escaped_time :: json where
  "json_escaped_time =
     JObject [(''result'', JObject [(''id'', JString ''t1''),
                                    (''created_at'',
                                     JEscaped escaped_time ''2021-01-01T00:00:00Z'')]),
              (''success'', JBool True)]"

definition doc_list_escaped_time :: string where
  \<open>doc_list_escaped_time =
     ''{"result":[{"id":"t1","created_at":"'' @ escaped_time @ ''"}],"success":true}''\<close>

definition json_list_escaped_time :: json where
  "json_list_escaped_time =
     JObject [(''result'', JArray [JObject [(''id'', JString ''t1''),
                                            (''created_at'',
                                             JEscaped escaped_time ''2021-01-01T00:00:00Z'')]]),
              (''success'', JBool True)]"

text \<open>A list whose members are written loosely: the key \<^verbatim>\<open>Result\<close>, a \<^verbatim>\<open>null\<close> name and the
  key \<^verbatim>\<open>ID\<close>.\<close>

definition doc_list_loose :: string where
  \<open>doc_list_loose = ''{"Result":[{"ID":"t1","name":null},{"id":"t2"}],"success":true}''\<close>

definition json_list_loose :: json where
  "json_list_loose =
     JObject [(''Result'', JArray [JObject [(''ID'', JString ''t1''), (''name'', JNull)],
                                   JObject [(''id'', JString ''t2'')]]),
              (''success'', JBool True)]"

definition doc_truncated :: string where
  \<open>doc_truncated = ''{"result":''\<close>

definition example_scan :: "string \<Rightarrow> json option" where
  "example_scan data =
     (if data = doc_created then Some json_created
      else if data = doc_failed then Some json_failed
      else if data = doc_list then Some json_list_doc
      else if data = doc_bare_connection then Some json_bare_connection
      else if data = doc_no_result then Some json_no_result
      else if data = doc_mismatch then Some json_mismatch
      else if data = doc_upper_key then Some json_upper_key
      else if data = doc_escaped_time then Some json_escaped_time
      else if data = doc_list_escaped_time then Some json_list_escaped_time
      else if data = doc_list_loose then Some json_list_loose
      else None)"

definition example_parseTime :: "string \<Rightarrow> string option" where
  "example_parseTime s = (if s = ''2021-01-01T00:00:00Z'' then Some s else None)"

definition example_api :: "string + string \<Rightarrow> (string, string) API" where
  "example_api outcome =
     \<lparr>makeRequestContext = (\<lambda>req. outcome),
      errMakeRequestError = ''error from makeRequest'',
      errUnmarshalError = ''error unmarshalling the JSON response'',
      scan = example_scan,
      parseTime = example_parseTime\<rparr>"

text \<open>The member of an object that belongs to a field, converted, or else the value the
  field had.\<close>

definition pick :: "(string \<times> json) list \<Rightarrow> string \<Rightarrow> (json option \<Rightarrow> 'a) \<Rightarrow> 'a \<Rightarrow> 'a" where
  "pick kvs name conv old = (case map_of kvs name of None \<Rightarrow> old | Some j \<Rightarrow> conv (Some j))"

section \<open>Properties\<close>

subsection \<open>Decoding accepts every response of an accepting shape\<close>

lemma into_Inr [simp]: "into f (Inr (x, s)) = Inr (f x, s)"
  by (simp add: into_def)

lemma value_string_ok: "string_or_null j \<Longrightarrow> \<exists>x. value_string j v saved = Inr (x, saved)"
  by (cases j) (simp_all add: string_or_null_def value_string_def)

lemma value_bool_ok: "bool_or_null j \<Longrightarrow> \<exists>x. value_bool j v saved = Inr (x, saved)"
  by (cases j) (simp_all add: bool_or_null_def value_bool_def)

lemma value_int_ok: "int_or_null j \<Longrightarrow> \<exists>x. value_int j v saved = Inr (x, saved)"
  by (cases j) (auto simp: int_or_null_def value_int_def)


lemma object_ok:
  "list_all (\<lambda>kv. \<forall>v. \<exists>v'. field (fst kv) (snd kv) v saved = Inr (v', saved)) kvs \<Longrightarrow>
   \<exists>v'. object field kvs v saved = Inr (v', saved)"
proof (induction kvs arbitrary: v)
  case Nil
  then show ?case by simp
next
  case (Cons kv kvs)
  obtain key j where kv: "kv = (key, j)" by (cases kv)
  from Cons.prems kv obtain v1 where step: "field key j v saved = Inr (v1, saved)"
    by auto
  from Cons.prems have "list_all (\<lambda>kv. \<forall>v. \<exists>v'. field (fst kv) (snd kv) v saved = Inr (v', saved)) kvs"
    by simp
  from Cons.IH [OF this, of v1] obtain v2 where "object field kvs v1 saved = Inr (v2, saved)" ..
  with step kv show ?case by simp
qed

lemma array_ok:
  "list_all (\<lambda>j. \<forall>x. \<exists>x'. elem j x saved = Inr (x', saved)) js \<Longrightarrow>
   \<exists>xs. array elem zero js old saved = Inr (xs, saved) \<and> length xs = length js"
proof (induction js arbitrary: old)
  case Nil
  then show ?case by simp
next
  case (Cons j js)
  from Cons.prems obtain x' where
    step: "elem j (case old of [] \<Rightarrow> zero | x # _ \<Rightarrow> x) saved = Inr (x', saved)"
    by auto
  from Cons.prems have "list_all (\<lambda>j. \<forall>x. \<exists>x'. elem j x saved = Inr (x', saved)) js"
    by simp
  from Cons.IH [OF this, of "tl old"] obtain xs where
    "array elem zero js (tl old) saved = Inr (xs, saved)" "length xs = length js" by auto
  with step show ?case by simp
qed

lemma value_struct_ok:
  assumes "object_or_null names typ j"
    and "\<And>key j' v. member_ok names typ (key, j') \<Longrightarrow> \<exists>v'. field key j' v saved = Inr (v', saved)"
  shows "\<exists>v'. value_struct field tyname j v saved = Inr (v', saved)"
proof (cases j)
  case (JObject kvs)
  with assms(1) have "list_all (member_ok names typ) kvs"
    by (simp add: object_or_null_def)
  then have "list_all (\<lambda>kv. \<forall>v. \<exists>v'. field (fst kv) (snd kv) v saved = Inr (v', saved)) kvs"
    using assms(2) by (auto simp: list_all_iff)
  then have "\<exists>v'. object field kvs v saved = Inr (v', saved)"
    by (rule object_ok)
  with JObject show ?thesis
    by (simp add: value_struct_def)
qed (use assms(1) in \<open>simp_all add: object_or_null_def value_struct_def\<close>)

lemma value_slice_ok:
  assumes "array_or_null shape j"
    and "\<And>j' x. shape j' \<Longrightarrow> \<exists>x'. elem j' x saved = Inr (x', saved)"
  shows "\<exists>v'. value_slice elem zero tyname j v saved = Inr (v', saved)"
proof (cases j)
  case (JArray js)
  with assms(1) have "list_all shape js" by (simp add: array_or_null_def)
  then have "list_all (\<lambda>j. \<forall>x. \<exists>x'. elem j x saved = Inr (x', saved)) js"
    using assms(2) by (auto simp: list_all_iff)
  then have "\<exists>xs. array elem zero js (case v of None \<Rightarrow> [] | Some xs \<Rightarrow> xs) saved = Inr (xs, saved) \<and>
      length xs = length js"
    by (rule array_ok)
  with JArray show ?thesis
    by (auto simp: value_slice_def)
qed (use assms(1) in \<open>simp_all add: array_or_null_def value_slice_def\<close>)

lemma findField_mem: "findField names key = Some name \<Longrightarrow> name \<in> set names"
  by (auto simp: findField_def find_Some_iff split: if_splits)



lemma field_ResponseInfo_ok:
  assumes "member_ok info_names info_typ (key, j)"
  shows "\<exists>v'. field_ResponseInfo key j v saved = Inr (v', saved)"
proof (cases "findField info_names key")
  case None
  then show ?thesis by (simp add: field_ResponseInfo_def info_names_def)
next
  case (Some name)
  with assms have ty: "info_typ name j" by (simp add: member_ok_def)
  from Some have "name \<in> set info_names" by (rule findField_mem)
  then consider "name = ''code''" | "name = ''message''"
    unfolding info_names_def list.set insert_iff empty_iff by argo
  then show ?thesis
  proof cases
    case 1
    with ty have "int_or_null j" by (simp add: info_typ_def)
    from value_int_ok [OF this, of "Code v" saved] 1 Some show ?thesis
      by (auto simp: field_ResponseInfo_def info_names_def)
  next
    case 2
    with ty have "string_or_null j" by (simp add: info_typ_def)
    from value_string_ok [OF this, of "Message v" saved] 2 Some show ?thesis
      by (auto simp: field_ResponseInfo_def info_names_def)
  qed
qed

lemma value_ResponseInfo_ok:
  "info_shape j \<Longrightarrow> \<exists>v'. value_ResponseInfo j v saved = Inr (v', saved)"
  unfolding info_shape_def value_ResponseInfo_def
  by (erule value_struct_ok) (rule field_ResponseInfo_ok)






subsection \<open>Decoding a documented response gives the fields of the JSON\<close>

lemma findField_None_notin: "findField names key = None \<Longrightarrow> key \<notin> set names"
  by (auto simp: findField_def split: if_splits)

lemma exact_keys_Cons:
  "exact_keys names ((key, j) # kvs) \<longleftrightarrow>
     key \<notin> fst ` set kvs \<and> (key \<in> set names \<or> findField names key = None) \<and>
     exact_keys names kvs"
  by (auto simp: exact_keys_def)

lemma map_of_absent: "key \<notin> fst ` set kvs \<Longrightarrow> map_of kvs key = None"
  by (simp add: map_of_eq_None_iff)

lemma value_string_JString [simp]: "value_string (JString s) v saved = Inr (s, saved)"
  by (simp add: value_string_def)

lemma value_bool_JBool [simp]: "value_bool (JBool b) v saved = Inr (b, saved)"
  by (simp add: value_bool_def)

lemma value_string_is_string:
  "is_string j \<Longrightarrow> value_string j v saved = Inr (json_string (Some j), saved)"
  by (cases j) (simp_all add: is_string_def value_string_def json_string_def)

lemma is_boolE: "is_bool j \<Longrightarrow> (\<And>b. j = JBool b \<Longrightarrow> P) \<Longrightarrow> P"
  by (cases j) (simp_all add: is_bool_def)

lemma connection_colo_name:
  "field_ArgoTunnelConnection ''colo_name'' j v saved =
     into (\<lambda>x. v\<lparr>ColoName := x\<rparr>) (value_string j (ColoName v) saved)"
  by (simp add: field_ArgoTunnelConnection_def findField_def)

lemma connection_uuid:
  "field_ArgoTunnelConnection ''uuid'' j v saved =
     into (\<lambda>x. v\<lparr>UUID := x\<rparr>) (value_string j (UUID v) saved)"
  by (simp add: field_ArgoTunnelConnection_def findField_def)

lemma connection_is_pending_reconnect:
  "field_ArgoTunnelConnection ''is_pending_reconnect'' j v saved =
     into (\<lambda>x. v\<lparr>IsPendingReconnect := x\<rparr>) (value_bool j (IsPendingReconnect v) saved)"
  by (simp add: field_ArgoTunnelConnection_def findField_def)

lemma connection_other:
  "findField connection_names key = None \<Longrightarrow>
   field_ArgoTunnelConnection key j v saved = Inr (v, saved)"
  by (simp add: field_ArgoTunnelConnection_def connection_names_def)

lemma pick_Cons_other: "key \<noteq> name \<Longrightarrow> pick ((key, j) # kvs) name conv old = pick kvs name conv old"
  by (simp add: pick_def)

lemma pick_Cons_same: "pick ((name, j) # kvs) name conv old = conv (Some j)"
  by (simp add: pick_def)

lemma pick_absent: "name \<notin> fst ` set kvs \<Longrightarrow> pick kvs name conv old = old"
  by (simp add: pick_def map_of_absent)

lemma pick_Nil [simp]: "pick [] name conv old = old"
  by (simp add: pick_def)

lemma object_connection_exact:
  "exact_keys connection_names kvs \<Longrightarrow>
   list_all (member_ok connection_names documented_connection_typ) kvs \<Longrightarrow>
   object field_ArgoTunnelConnection kvs v saved =
     Inr (\<lparr>ColoName = pick kvs ''colo_name'' json_string (ColoName v),
           UUID = pick kvs ''uuid'' json_string (UUID v),
           IsPendingReconnect = pick kvs ''is_pending_reconnect'' json_bool (IsPendingReconnect v)\<rparr>,
          saved)"
proof (induction kvs arbitrary: v)
  case Nil
  then show ?case by simp
next
  case (Cons kv kvs)
  obtain key j where kv: "kv = (key, j)" by (cases kv)
  from Cons.prems(1) kv have fresh: "key \<notin> fst ` set kvs"
    and known: "key \<in> set connection_names \<or> findField connection_names key = None"
    and rest: "exact_keys connection_names kvs"
    by (simp_all add: exact_keys_Cons)
  from Cons.prems(2) kv have here: "member_ok connection_names documented_connection_typ (key, j)"
    and there: "list_all (member_ok connection_names documented_connection_typ) kvs"
    by simp_all
  note IH = Cons.IH [OF rest there]
  from known consider (other) "findField connection_names key = None"
    | (colo) "key = ''colo_name''" | (uuid) "key = ''uuid''"
    | (pending) "key = ''is_pending_reconnect''"
    unfolding connection_names_def list.set insert_iff empty_iff by argo
  then show ?case
  proof cases
    case other
    then have "key \<notin> set connection_names" by (rule findField_None_notin)
    then have ne: "key \<noteq> ''colo_name''" "key \<noteq> ''uuid''" "key \<noteq> ''is_pending_reconnect''"
      by (auto simp: connection_names_def)
    show ?thesis
      unfolding kv object.simps connection_other [OF other]
      by (simp add: IH pick_Cons_other ne)
  next
    case colo
    with here have str: "is_string j"
      by (simp add: member_ok_def findField_def connection_names_def documented_connection_typ_def)
    define s where "s = json_string (Some j)"
    have j: "value_string j x saved = Inr (s, saved)" for x
      unfolding s_def using str by (rule value_string_is_string)
    from fresh colo have absent: "''colo_name'' \<notin> fst ` set kvs" by simp
    show ?thesis
      unfolding kv colo object.simps connection_colo_name j
      by (simp add: IH pick_Cons_other pick_Cons_same pick_absent [OF absent] s_def [symmetric])
  next
    case uuid
    with here have str: "is_string j"
      by (simp add: member_ok_def findField_def connection_names_def documented_connection_typ_def)
    define s where "s = json_string (Some j)"
    have j: "value_string j x saved = Inr (s, saved)" for x
      unfolding s_def using str by (rule value_string_is_string)
    from fresh uuid have absent: "''uuid'' \<notin> fst ` set kvs" by simp
    show ?thesis
      unfolding kv uuid object.simps connection_uuid j
      by (simp add: IH pick_Cons_other pick_Cons_same pick_absent [OF absent] s_def [symmetric])
  next
    case pending
    with here have "is_bool j"
      by (simp add: member_ok_def findField_def connection_names_def documented_connection_typ_def)
    then obtain b where j: "j = JBool b" by (rule is_boolE)
    from fresh pending have absent: "''is_pending_reconnect'' \<notin> fst ` set kvs" by simp
    show ?thesis
      unfolding kv pending object.simps connection_is_pending_reconnect j
      by (simp add: IH pick_Cons_other pick_Cons_same pick_absent [OF absent] json_bool_def)
  qed
qed

lemma field_Response_keeps:
  assumes "response_typ name j"
  shows "\<exists>b e m. field_Response name j v saved =
           Inr (v\<lparr>Success := b, Errors := e, Messages := m\<rparr>, saved)"
proof (cases "name = ''success''")
  case True
  with assms have "bool_or_null j" by (simp add: response_typ_def)
  from value_bool_ok [OF this, of "Success v" saved]
  obtain b where "value_bool j (Success v) saved = Inr (b, saved)" ..
  with True have "field_Response name j v saved =
      Inr (v\<lparr>Success := b, Errors := Errors v, Messages := Messages v\<rparr>, saved)"
    by (simp add: field_Response_def)
  then show ?thesis by blast
next
  case False
  with assms have shape: "array_or_null info_shape j" by (simp add: response_typ_def)
  have "\<exists>x. value_slice value_ResponseInfo zero_ResponseInfo ''[]cloudflare.ResponseInfo''
              j (Errors v) saved = Inr (x, saved)"
    using shape by (rule value_slice_ok) (rule value_ResponseInfo_ok)
  then obtain e where e: "value_slice value_ResponseInfo zero_ResponseInfo
      ''[]cloudflare.ResponseInfo'' j (Errors v) saved = Inr (e, saved)" ..
  have "\<exists>x. value_slice value_ResponseInfo zero_ResponseInfo ''[]cloudflare.ResponseInfo''
              j (Messages v) saved = Inr (x, saved)"
    using shape by (rule value_slice_ok) (rule value_ResponseInfo_ok)
  then obtain m where m: "value_slice value_ResponseInfo zero_ResponseInfo
      ''[]cloudflare.ResponseInfo'' j (Messages v) saved = Inr (m, saved)" ..
  show ?thesis
  proof (cases "name = ''errors''")
    case True
    with False e have "field_Response name j v saved =
        Inr (v\<lparr>Success := Success v, Errors := e, Messages := Messages v\<rparr>, saved)"
      by (simp add: field_Response_def)
    then show ?thesis by blast
  next
    case ne: False
    with False m have "field_Response name j v saved =
        Inr (v\<lparr>Success := Success v, Errors := Errors v, Messages := m\<rparr>, saved)"
      by (simp add: field_Response_def)
    then show ?thesis by blast
  qed
qed

lemma array_exact:
  "list_all (\<lambda>j. elem j zero saved = Inr (conv j, saved)) js \<Longrightarrow>
   array elem zero js [] saved = Inr (map conv js, saved)"
  by (induction js) simp_all

lemma value_ArgoTunnelConnection_exact:
  assumes "documented_connection j"
  shows "value_ArgoTunnelConnection j zero_ArgoTunnelConnection saved =
           Inr (connection_of_json j, saved)"
proof -
  from assms obtain kvs where j: "j = JObject kvs"
    and keys: "exact_keys connection_names kvs"
    and typed: "list_all (member_ok connection_names documented_connection_typ) kvs"
    by (cases j) (simp_all add: documented_connection_def is_object_def)
  have s: "pick kvs name json_string [] = json_string (map_of kvs name)" for name
    by (simp add: pick_def json_string_def split: option.split)
  have b: "pick kvs name json_bool False = json_bool (map_of kvs name)" for name
    by (simp add: pick_def json_bool_def split: option.split)
  show ?thesis
    unfolding j value_ArgoTunnelConnection_def value_struct_def json.case
      object_connection_exact [OF keys typed]
    by (simp add: zero_ArgoTunnelConnection_def connection_of_json_def members_def s b)
qed

lemma value_connections_exact:
  assumes "is_array documented_connection j"
  shows "value_slice value_ArgoTunnelConnection zero_ArgoTunnelConnection tyname j None saved =
           Inr (json_list connection_of_json (Some j), saved)"
proof -
  from assms obtain js where j: "j = JArray js" and all: "list_all documented_connection js"
    by (cases j) (simp_all add: is_array_def)
  from all have "list_all (\<lambda>j. value_ArgoTunnelConnection j zero_ArgoTunnelConnection saved =
      Inr (connection_of_json j, saved)) js"
    by (simp add: list_all_iff value_ArgoTunnelConnection_exact)
  then have "array value_ArgoTunnelConnection zero_ArgoTunnelConnection js [] saved =
      Inr (map connection_of_json js, saved)"
    by (rule array_exact)
  then show ?thesis
    by (simp add: j value_slice_def json_list_def)
qed

lemma value_time_JString: "pt s = Some t \<Longrightarrow> value_time pt (JString s) v saved = Inr (Some t, saved)"
  by (simp add: value_time_def)

lemma is_timeE: "is_time pt j \<Longrightarrow> (\<And>s t. j = JString s \<Longrightarrow> pt s = Some t \<Longrightarrow> P) \<Longrightarrow> P"
  by (cases j) (auto simp: is_time_def)

lemma tunnel_id:
  "field_ArgoTunnel pt ''id'' j v saved = into (\<lambda>x. v\<lparr>ID := x\<rparr>) (value_string j (ID v) saved)"
  by (simp add: field_ArgoTunnel_def findField_def)

lemma tunnel_name:
  "field_ArgoTunnel pt ''name'' j v saved =
     into (\<lambda>x. v\<lparr>Name := x\<rparr>) (value_string j (Name v) saved)"
  by (simp add: field_ArgoTunnel_def findField_def)

lemma tunnel_tunnel_secret:
  "field_ArgoTunnel pt ''tunnel_secret'' j v saved =
     into (\<lambda>x. v\<lparr>Secret := x\<rparr>) (value_string j (Secret v) saved)"
  by (simp add: field_ArgoTunnel_def findField_def)

lemma tunnel_created_at:
  "field_ArgoTunnel pt ''created_at'' j v saved =
     into (\<lambda>x. v\<lparr>CreatedAt := x\<rparr>) (value_time pt j (CreatedAt v) saved)"
  by (simp add: field_ArgoTunnel_def findField_def)

lemma tunnel_deleted_at:
  "field_ArgoTunnel pt ''deleted_at'' j v saved =
     into (\<lambda>x. v\<lparr>DeletedAt := x\<rparr>) (value_time pt j (DeletedAt v) saved)"
  by (simp add: field_ArgoTunnel_def findField_def)

lemma tunnel_connections:
  "field_ArgoTunnel pt ''connections'' j v saved =
     into (\<lambda>x. v\<lparr>Connections := x\<rparr>)
       (value_slice value_ArgoTunnelConnection zero_ArgoTunnelConnection
          ''[]cloudflare.ArgoTunnelConnection'' j (Connections v) saved)"
  by (simp add: field_ArgoTunnel_def findField_def)

lemma tunnel_other:
  "findField tunnel_names key = None \<Longrightarrow> field_ArgoTunnel pt key j v saved = Inr (v, saved)"
  by (simp add: field_ArgoTunnel_def tunnel_names_def)

lemma tunnel_typ_at:
  "member_ok tunnel_names (documented_tunnel_typ pt) (key, j) \<Longrightarrow> key \<in> set tunnel_names \<Longrightarrow>
   documented_tunnel_typ pt key j"
  by (simp add: member_ok_def findField_def)

lemma object_tunnel_exact:
  "exact_keys tunnel_names kvs \<Longrightarrow>
   list_all (member_ok tunnel_names (documented_tunnel_typ pt)) kvs \<Longrightarrow>
   (''connections'' \<in> fst ` set kvs \<longrightarrow> Connections v = None) \<Longrightarrow>
   object (field_ArgoTunnel pt) kvs v saved =
     Inr (\<lparr>ID = pick kvs ''id'' json_string (ID v),
           Name = pick kvs ''name'' json_string (Name v),
           Secret = pick kvs ''tunnel_secret'' json_string (Secret v),
           CreatedAt = pick kvs ''created_at'' (json_time pt) (CreatedAt v),
           DeletedAt = pick kvs ''deleted_at'' (json_time pt) (DeletedAt v),
           Connections = pick kvs ''connections'' (json_list connection_of_json) (Connections v)\<rparr>,
          saved)"
proof (induction kvs arbitrary: v)
  case Nil
  then show ?case by simp
next
  case (Cons kv kvs)
  obtain key j where kv: "kv = (key, j)" by (cases kv)
  from Cons.prems(1) kv have fresh: "key \<notin> fst ` set kvs"
    and known: "key \<in> set tunnel_names \<or> findField tunnel_names key = None"
    and rest: "exact_keys tunnel_names kvs"
    by (simp_all add: exact_keys_Cons)
  from Cons.prems(2) kv have here: "member_ok tunnel_names (documented_tunnel_typ pt) (key, j)"
    and there: "list_all (member_ok tunnel_names (documented_tunnel_typ pt)) kvs"
    by simp_all
  from Cons.prems(3) kv have inv: "''connections'' \<in> fst ` set kvs \<longrightarrow> Connections v = None"
    by simp
  note IH = Cons.IH [OF rest there]
  from known consider (other) "findField tunnel_names key = None"
    | (id) "key = ''id''" | (name) "key = ''name''" | (secret) "key = ''tunnel_secret''"
    | (created) "key = ''created_at''" | (deleted) "key = ''deleted_at''"
    | (connections) "key = ''connections''"
    unfolding tunnel_names_def list.set insert_iff empty_iff by argo
  then show ?case
  proof cases
    case other
    then have "key \<notin> set tunnel_names" by (rule findField_None_notin)
    then have ne: "key \<noteq> ''id''" "key \<noteq> ''name''" "key \<noteq> ''tunnel_secret''"
      "key \<noteq> ''created_at''" "key \<noteq> ''deleted_at''" "key \<noteq> ''connections''"
      by (auto simp: tunnel_names_def)
    show ?thesis
      unfolding kv object.simps tunnel_other [OF other]
      by (simp add: IH [OF inv] pick_Cons_other ne)
  next
    case id
    have "documented_tunnel_typ pt key j"
      using here by (rule tunnel_typ_at) (simp add: id tunnel_names_def)
    then have str: "is_string j" by (simp add: id documented_tunnel_typ_def)
    define s where "s = json_string (Some j)"
    have j: "value_string j x saved = Inr (s, saved)" for x
      unfolding s_def using str by (rule value_string_is_string)
    from fresh id have absent: "''id'' \<notin> fst ` set kvs" by simp
    have inv': "''connections'' \<in> fst ` set kvs \<longrightarrow> Connections (v\<lparr>ID := s\<rparr>) = None"
      using inv by simp
    show ?thesis
      unfolding kv id object.simps tunnel_id j
      by (simp add: IH [OF inv'] pick_Cons_other pick_Cons_same pick_absent [OF absent]
          s_def [symmetric])
  next
    case name
    have "documented_tunnel_typ pt key j"
      using here by (rule tunnel_typ_at) (simp add: name tunnel_names_def)
    then have str: "is_string j" by (simp add: name documented_tunnel_typ_def)
    define s where "s = json_string (Some j)"
    have j: "value_string j x saved = Inr (s, saved)" for x
      unfolding s_def using str by (rule value_string_is_string)
    from fresh name have absent: "''name'' \<notin> fst ` set kvs" by simp
    have inv': "''connections'' \<in> fst ` set kvs \<longrightarrow> Connections (v\<lparr>Name := s\<rparr>) = None"
      using inv by simp
    show ?thesis
      unfolding kv name object.simps tunnel_name j
      by (simp add: IH [OF inv'] pick_Cons_other pick_Cons_same pick_absent [OF absent]
          s_def [symmetric])
  next
    case secret
    have "documented_tunnel_typ pt key j"
      using here by (rule tunnel_typ_at) (simp add: secret tunnel_names_def)
    then have str: "is_string j" by (simp add: secret documented_tunnel_typ_def)
    define s where "s = json_string (Some j)"
    have j: "value_string j x saved = Inr (s, saved)" for x
      unfolding s_def using str by (rule value_string_is_string)
    from fresh secret have absent: "''tunnel_secret'' \<notin> fst ` set kvs" by simp
    have inv': "''connections'' \<in> fst ` set kvs \<longrightarrow> Connections (v\<lparr>Secret := s\<rparr>) = None"
      using inv by simp
    show ?thesis
      unfolding kv secret object.simps tunnel_tunnel_secret j
      by (simp add: IH [OF inv'] pick_Cons_other pick_Cons_same pick_absent [OF absent]
          s_def [symmetric])
  next
    case created
    have "documented_tunnel_typ pt key j"
      using here by (rule tunnel_typ_at) (simp add: created tunnel_names_def)
    then have "is_time pt j" by (simp add: created documented_tunnel_typ_def)
    then obtain s t where j: "j = JString s" and t: "pt s = Some t" by (rule is_timeE)
    from fresh created have absent: "''created_at'' \<notin> fst ` set kvs" by simp
    have inv': "''connections'' \<in> fst ` set kvs \<longrightarrow> Connections (v\<lparr>CreatedAt := Some t\<rparr>) = None"
      using inv by simp
    show ?thesis
      unfolding kv created object.simps tunnel_created_at j value_time_JString [of pt s t, OF t]
      by (simp add: IH [OF inv'] pick_Cons_other pick_Cons_same pick_absent [OF absent]
          json_time_def t)
  next
    case deleted
    have "documented_tunnel_typ pt key j"
      using here by (rule tunnel_typ_at) (simp add: deleted tunnel_names_def)
    then have "is_time pt j" by (simp add: deleted documented_tunnel_typ_def)
    then obtain s t where j: "j = JString s" and t: "pt s = Some t" by (rule is_timeE)
    from fresh deleted have absent: "''deleted_at'' \<notin> fst ` set kvs" by simp
    have inv': "''connections'' \<in> fst ` set kvs \<longrightarrow> Connections (v\<lparr>DeletedAt := Some t\<rparr>) = None"
      using inv by simp
    show ?thesis
      unfolding kv deleted object.simps tunnel_deleted_at j value_time_JString [of pt s t, OF t]
      by (simp add: IH [OF inv'] pick_Cons_other pick_Cons_same pick_absent [OF absent]
          json_time_def t)
  next
    case connections
    have "documented_tunnel_typ pt key j"
      using here by (rule tunnel_typ_at) (simp add: connections tunnel_names_def)
    then have arr: "is_array documented_connection j"
      by (simp add: connections documented_tunnel_typ_def)
    from Cons.prems(3) kv connections have none: "Connections v = None" by simp
    from fresh connections have absent: "''connections'' \<notin> fst ` set kvs" by simp
    then have inv': "''connections'' \<in> fst ` set kvs \<longrightarrow>
        Connections (v\<lparr>Connections := json_list connection_of_json (Some j)\<rparr>) = None"
      by simp
    show ?thesis
      unfolding kv connections object.simps tunnel_connections none
        value_connections_exact [OF arr]
      by (simp add: IH [OF inv'] pick_Cons_other pick_Cons_same pick_absent [OF absent])
  qed
qed

lemma value_ArgoTunnel_exact:
  assumes "documented_tunnel pt j"
  shows "value_ArgoTunnel pt j zero_ArgoTunnel saved = Inr (tunnel_of_json pt j, saved)"
proof -
  from assms obtain kvs where j: "j = JObject kvs"
    and keys: "exact_keys tunnel_names kvs"
    and typed: "list_all (member_ok tunnel_names (documented_tunnel_typ pt)) kvs"
    by (cases j) (simp_all add: documented_tunnel_def is_object_def)
  have inv: "''connections'' \<in> fst ` set kvs \<longrightarrow> Connections (zero_ArgoTunnel :: 'a ArgoTunnel) = None"
    by (simp add: zero_ArgoTunnel_def)
  have s: "pick kvs name json_string [] = json_string (map_of kvs name)" for name
    by (simp add: pick_def json_string_def split: option.split)
  have t: "pick kvs name (json_time pt) None = json_time pt (map_of kvs name)" for name
    by (simp add: pick_def json_time_def split: option.split)
  have c: "pick kvs name (json_list connection_of_json) None =
      json_list connection_of_json (map_of kvs name)" for name
    by (simp add: pick_def json_list_def split: option.split)
  show ?thesis
    unfolding j value_ArgoTunnel_def value_struct_def json.case
      object_tunnel_exact [OF keys typed inv]
    by (simp add: zero_ArgoTunnel_def tunnel_of_json_def members_def s t c)
qed

lemma envelope_names_cases:
  "key \<in> set envelope_names \<Longrightarrow>
   key = ''result'' \<or> key = ''success'' \<or> key = ''errors'' \<or> key = ''messages''"
  by (simp add: envelope_names_def)

lemma single_result:
  "field_ArgoTunnelDetailResponse pt ''result'' j v saved =
     into (\<lambda>x. v\<lparr>Result := x\<rparr>) (value_ArgoTunnel pt j (Result v) saved)"
  by (simp add: field_ArgoTunnelDetailResponse_def findField_def)

lemma single_status:
  "key = ''success'' \<or> key = ''errors'' \<or> key = ''messages'' \<Longrightarrow>
   field_ArgoTunnelDetailResponse pt key j v saved = field_Response key j v saved"
  by (auto simp: field_ArgoTunnelDetailResponse_def findField_def)

lemma single_other:
  "findField envelope_names key = None \<Longrightarrow>
   field_ArgoTunnelDetailResponse pt key j v saved = Inr (v, saved)"
  by (simp add: field_ArgoTunnelDetailResponse_def envelope_names_def)

lemma multi_result:
  "field_ArgoTunnelsDetailResponse pt ''result'' j v saved =
     into (\<lambda>x. v\<lparr>ArgoTunnelsDetailResponse.Result := x\<rparr>)
       (value_slice (value_ArgoTunnel pt) zero_ArgoTunnel ''[]cloudflare.ArgoTunnel''
          j (ArgoTunnelsDetailResponse.Result v) saved)"
  by (simp add: field_ArgoTunnelsDetailResponse_def findField_def)

lemma multi_status:
  "key = ''success'' \<or> key = ''errors'' \<or> key = ''messages'' \<Longrightarrow>
   field_ArgoTunnelsDetailResponse pt key j v saved = field_Response key j v saved"
  by (auto simp: field_ArgoTunnelsDetailResponse_def findField_def)

lemma multi_other:
  "findField envelope_names key = None \<Longrightarrow>
   field_ArgoTunnelsDetailResponse pt key j v saved = Inr (v, saved)"
  by (simp add: field_ArgoTunnelsDetailResponse_def envelope_names_def)

lemma envelope_typ_at:
  "member_ok envelope_names typ (key, j) \<Longrightarrow> key \<in> set envelope_names \<Longrightarrow> typ key j"
  by (simp add: member_ok_def findField_def)

lemma value_tunnels_exact:
  assumes "j = JNull \<or> is_array (documented_tunnel pt) j"
  shows "value_slice (value_ArgoTunnel pt) zero_ArgoTunnel tyname j None saved =
           Inr (json_list (tunnel_of_json pt) (Some j), saved)"
proof (cases "j = JNull")
  case True
  then show ?thesis by (simp add: value_slice_def json_list_def)
next
  case False
  with assms obtain js where j: "j = JArray js" and all: "list_all (documented_tunnel pt) js"
    by (cases j) (simp_all add: is_array_def)
  from all have "list_all (\<lambda>j. value_ArgoTunnel pt j zero_ArgoTunnel saved =
      Inr (tunnel_of_json pt j, saved)) js"
    by (simp add: list_all_iff value_ArgoTunnel_exact)
  then have "array (value_ArgoTunnel pt) zero_ArgoTunnel js [] saved =
      Inr (map (tunnel_of_json pt) js, saved)"
    by (rule array_exact)
  then show ?thesis
    by (simp add: j value_slice_def json_list_def)
qed

lemma object_single_exact:
  "exact_keys envelope_names kvs \<Longrightarrow>
   list_all (member_ok envelope_names (documented_single_typ pt)) kvs \<Longrightarrow>
   (''result'' \<in> fst ` set kvs \<longrightarrow> Result v = zero_ArgoTunnel) \<Longrightarrow>
   \<exists>v'. object (field_ArgoTunnelDetailResponse pt) kvs v saved = Inr (v', saved) \<and>
        Result v' = pick kvs ''result'' (json_tunnel pt) (Result v)"
proof (induction kvs arbitrary: v)
  case Nil
  then show ?case by simp
next
  case (Cons kv kvs)
  obtain key j where kv: "kv = (key, j)" by (cases kv)
  from Cons.prems(1) kv have fresh: "key \<notin> fst ` set kvs"
    and known: "key \<in> set envelope_names \<or> findField envelope_names key = None"
    and rest: "exact_keys envelope_names kvs"
    by (simp_all add: exact_keys_Cons)
  from Cons.prems(2) kv have here: "member_ok envelope_names (documented_single_typ pt) (key, j)"
    and there: "list_all (member_ok envelope_names (documented_single_typ pt)) kvs"
    by simp_all
  from Cons.prems(3) kv have inv: "''result'' \<in> fst ` set kvs \<longrightarrow> Result v = zero_ArgoTunnel"
    by simp
  note IH = Cons.IH [OF rest there]
  from known envelope_names_cases [of key]
  consider (other) "findField envelope_names key = None"
    | (result) "key = ''result''"
    | (status) "key \<in> set envelope_names" "key = ''success'' \<or> key = ''errors'' \<or> key = ''messages''"
    by argo
  then show ?case
  proof cases
    case other
    then have "key \<notin> set envelope_names" by (rule findField_None_notin)
    then have ne: "key \<noteq> ''result''" by (auto simp: envelope_names_def)
    from IH [OF inv] obtain v' where
      "object (field_ArgoTunnelDetailResponse pt) kvs v saved = Inr (v', saved)"
      "Result v' = pick kvs ''result'' (json_tunnel pt) (Result v)" by blast
    then show ?thesis
      unfolding kv object.simps single_other [OF other]
      by (simp add: pick_Cons_other ne)
  next
    case result
    have "documented_single_typ pt key j"
      using here by (rule envelope_typ_at) (simp add: result envelope_names_def)
    then have doc: "documented_tunnel pt j" by (simp add: result documented_single_typ_def)
    from Cons.prems(3) kv result have zero: "Result v = zero_ArgoTunnel" by simp
    from fresh result have absent: "''result'' \<notin> fst ` set kvs" by simp
    let ?v1 = "v\<lparr>Result := tunnel_of_json pt j\<rparr>"
    from absent have "''result'' \<in> fst ` set kvs \<longrightarrow> Result ?v1 = zero_ArgoTunnel" by simp
    from IH [OF this] obtain v' where
      "object (field_ArgoTunnelDetailResponse pt) kvs ?v1 saved = Inr (v', saved)"
      "Result v' = pick kvs ''result'' (json_tunnel pt) (Result ?v1)" by blast
    then show ?thesis
      unfolding kv result object.simps single_result zero value_ArgoTunnel_exact [OF doc]
      by (simp add: pick_Cons_same pick_absent [OF absent] json_tunnel_def)
  next
    case status
    have "documented_single_typ pt key j"
      using here status(1) by (rule envelope_typ_at)
    moreover from status(2) have ne: "key \<noteq> ''result''" by auto
    ultimately have "response_typ key j" by (simp add: documented_single_typ_def)
    from field_Response_keeps [OF this, of v saved] obtain b e m where
      step: "field_Response key j v saved =
        Inr (v\<lparr>Success := b, Errors := e, Messages := m\<rparr>, saved)" by blast
    let ?v1 = "v\<lparr>Success := b, Errors := e, Messages := m\<rparr>"
    from inv have "''result'' \<in> fst ` set kvs \<longrightarrow> Result ?v1 = zero_ArgoTunnel" by simp
    from IH [OF this] obtain v' where
      "object (field_ArgoTunnelDetailResponse pt) kvs ?v1 saved = Inr (v', saved)"
      "Result v' = pick kvs ''result'' (json_tunnel pt) (Result ?v1)" by blast
    then show ?thesis
      unfolding kv object.simps single_status [OF status(2)] step
      by (simp add: pick_Cons_other ne)
  qed
qed

lemma object_multi_exact:
  "exact_keys envelope_names kvs \<Longrightarrow>
   list_all (member_ok envelope_names (nullable_multi_typ pt)) kvs \<Longrightarrow>
   (''result'' \<in> fst ` set kvs \<longrightarrow> ArgoTunnelsDetailResponse.Result v = None) \<Longrightarrow>
   \<exists>v'. object (field_ArgoTunnelsDetailResponse pt) kvs v saved = Inr (v', saved) \<and>
        ArgoTunnelsDetailResponse.Result v' =
          pick kvs ''result'' (json_list (tunnel_of_json pt)) (ArgoTunnelsDetailResponse.Result v)"
proof (induction kvs arbitrary: v)
  case Nil
  then show ?case by simp
next
  case (Cons kv kvs)
  obtain key j where kv: "kv = (key, j)" by (cases kv)
  from Cons.prems(1) kv have fresh: "key \<notin> fst ` set kvs"
    and known: "key \<in> set envelope_names \<or> findField envelope_names key = None"
    and rest: "exact_keys envelope_names kvs"
    by (simp_all add: exact_keys_Cons)
  from Cons.prems(2) kv have here: "member_ok envelope_names (nullable_multi_typ pt) (key, j)"
    and there: "list_all (member_ok envelope_names (nullable_multi_typ pt)) kvs"
    by simp_all
  from Cons.prems(3) kv have inv:
    "''result'' \<in> fst ` set kvs \<longrightarrow> ArgoTunnelsDetailResponse.Result v = None"
    by simp
  note IH = Cons.IH [OF rest there]
  from known envelope_names_cases [of key]
  consider (other) "findField envelope_names key = None"
    | (result) "key = ''result''"
    | (status) "key \<in> set envelope_names" "key = ''success'' \<or> key = ''errors'' \<or> key = ''messages''"
    by argo
  then show ?case
  proof cases
    case other
    then have "key \<notin> set envelope_names" by (rule findField_None_notin)
    then have ne: "key \<noteq> ''result''" by (auto simp: envelope_names_def)
    from IH [OF inv] obtain v' where
      "object (field_ArgoTunnelsDetailResponse pt) kvs v saved = Inr (v', saved)"
      "ArgoTunnelsDetailResponse.Result v' =
         pick kvs ''result'' (json_list (tunnel_of_json pt)) (ArgoTunnelsDetailResponse.Result v)"
      by blast
    then show ?thesis
      unfolding kv object.simps multi_other [OF other]
      by (simp add: pick_Cons_other ne)
  next
    case result
    have "nullable_multi_typ pt key j"
      using here by (rule envelope_typ_at) (simp add: result envelope_names_def)
    then have doc: "j = JNull \<or> is_array (documented_tunnel pt) j"
      by (simp add: result nullable_multi_typ_def)
    from Cons.prems(3) kv result have none: "ArgoTunnelsDetailResponse.Result v = None" by simp
    from fresh result have absent: "''result'' \<notin> fst ` set kvs" by simp
    let ?v1 = "v\<lparr>ArgoTunnelsDetailResponse.Result := json_list (tunnel_of_json pt) (Some j)\<rparr>"
    from absent have
      "''result'' \<in> fst ` set kvs \<longrightarrow> ArgoTunnelsDetailResponse.Result ?v1 = None" by simp
    from IH [OF this] obtain v' where
      "object (field_ArgoTunnelsDetailResponse pt) kvs ?v1 saved = Inr (v', saved)"
      "ArgoTunnelsDetailResponse.Result v' =
         pick kvs ''result'' (json_list (tunnel_of_json pt)) (ArgoTunnelsDetailResponse.Result ?v1)"
      by blast
    then show ?thesis
      unfolding kv result object.simps multi_result none value_tunnels_exact [OF doc]
      by (simp add: pick_Cons_same pick_absent [OF absent])
  next
    case status
    have "nullable_multi_typ pt key j"
      using here status(1) by (rule envelope_typ_at)
    moreover from status(2) have ne: "key \<noteq> ''result''" by auto
    ultimately have "response_typ key j" by (simp add: nullable_multi_typ_def)
    from field_Response_keeps [OF this, of v saved] obtain b e m where
      step: "field_Response key j v saved =
        Inr (v\<lparr>Success := b, Errors := e, Messages := m\<rparr>, saved)" by blast
    let ?v1 = "v\<lparr>Success := b, Errors := e, Messages := m\<rparr>"
    from inv have
      "''result'' \<in> fst ` set kvs \<longrightarrow> ArgoTunnelsDetailResponse.Result ?v1 = None" by simp
    from IH [OF this] obtain v' where
      "object (field_ArgoTunnelsDetailResponse pt) kvs ?v1 saved = Inr (v', saved)"
      "ArgoTunnelsDetailResponse.Result v' =
         pick kvs ''result'' (json_list (tunnel_of_json pt)) (ArgoTunnelsDetailResponse.Result ?v1)"
      by blast
    then show ?thesis
      unfolding kv object.simps multi_status [OF status(2)] step
      by (simp add: pick_Cons_other ne)
  qed
qed

subsection \<open>Whole envelopes and the examples\<close>

lemmas op_defs = ArgoTunnels_def ArgoTunnel_def CreateArgoTunnel_def DeleteArgoTunnel_def
  CleanupArgoTunnelConnections_def


lemma scan_truncated: "example_scan doc_truncated = None"
  by (simp add: example_scan_def doc_truncated_def doc_created_def doc_failed_def doc_list_def
      doc_bare_connection_def doc_no_result_def doc_mismatch_def doc_upper_key_def
      doc_escaped_time_def doc_list_escaped_time_def doc_list_loose_def escaped_time_def)

lemma scan_mismatch: "example_scan doc_mismatch = Some json_mismatch"
  by (simp add: example_scan_def doc_created_def doc_failed_def doc_list_def
      doc_bare_connection_def doc_no_result_def doc_mismatch_def doc_upper_key_def
      doc_escaped_time_def doc_list_escaped_time_def doc_list_loose_def escaped_time_def)





lemma pick_zero_tunnel:
  "pick kvs name (json_tunnel pt) zero_ArgoTunnel = json_tunnel pt (map_of kvs name)"
  by (simp add: pick_def json_tunnel_def split: option.split)

lemma pick_nil_tunnels:
  "pick kvs name (json_list (tunnel_of_json pt)) None = json_list (tunnel_of_json pt) (map_of kvs name)"
  by (simp add: pick_def json_list_def split: option.split)

lemma single_envelope_decoded:
  fixes pt :: "string \<Rightarrow> 't option"
  assumes scanned: "sc data = Some j"
    and shape: "documented_single_envelope pt j"
  shows "\<exists>v'. Unmarshal sc (value_ArgoTunnelDetailResponse pt) data zero_ArgoTunnelDetailResponse =
           (Inr v' :: 'e error + 't ArgoTunnelDetailResponse) \<and>
         Result v' = json_tunnel pt (map_of (members j) ''result'')"
proof -
  from shape obtain kvs where j: "j = JObject kvs"
    and keys: "exact_keys envelope_names kvs"
    and typed: "list_all (member_ok envelope_names (documented_single_typ pt)) kvs"
    by (cases j) (simp_all add: documented_single_envelope_def is_object_def)
  have "''result'' \<in> fst ` set kvs \<longrightarrow>
      Result (zero_ArgoTunnelDetailResponse :: 't ArgoTunnelDetailResponse) = zero_ArgoTunnel"
    by (simp add: zero_ArgoTunnelDetailResponse_def)
  from object_single_exact [OF keys typed this, of "None :: 'e error option"]
  obtain v' where
    "object (field_ArgoTunnelDetailResponse pt) kvs zero_ArgoTunnelDetailResponse
       (None :: 'e error option) = Inr (v', None)"
    "Result v' = pick kvs ''result'' (json_tunnel pt)
       (Result (zero_ArgoTunnelDetailResponse :: 't ArgoTunnelDetailResponse))"
    by blast
  then have obj: "value_ArgoTunnelDetailResponse pt j zero_ArgoTunnelDetailResponse
      (None :: 'e error option) = Inr (v', None)"
    and res: "Result v' = json_tunnel pt (map_of (members j) ''result'')"
    by (simp_all add: j value_ArgoTunnelDetailResponse_def value_struct_def members_def
        zero_ArgoTunnelDetailResponse_def pick_zero_tunnel)
  from scanned obj have "Unmarshal sc (value_ArgoTunnelDetailResponse pt) data
      zero_ArgoTunnelDetailResponse = (Inr v' :: 'e error + 't ArgoTunnelDetailResponse)"
    by (simp add: Unmarshal_def)
  with res show ?thesis by blast
qed

lemma multi_envelope_decoded:
  fixes pt :: "string \<Rightarrow> 't option"
  assumes scanned: "sc data = Some j"
    and shape: "nullable_multi_envelope pt j"
  shows "\<exists>v'. Unmarshal sc (value_ArgoTunnelsDetailResponse pt) data zero_ArgoTunnelsDetailResponse =
           (Inr v' :: 'e error + 't ArgoTunnelsDetailResponse) \<and>
         ArgoTunnelsDetailResponse.Result v' =
           json_list (tunnel_of_json pt) (map_of (members j) ''result'')"
proof -
  from shape obtain kvs where j: "j = JObject kvs"
    and keys: "exact_keys envelope_names kvs"
    and typed: "list_all (member_ok envelope_names (nullable_multi_typ pt)) kvs"
    by (cases j) (simp_all add: nullable_multi_envelope_def is_object_def)
  have "''result'' \<in> fst ` set kvs \<longrightarrow>
      ArgoTunnelsDetailResponse.Result
        (zero_ArgoTunnelsDetailResponse :: 't ArgoTunnelsDetailResponse) = None"
    by (simp add: zero_ArgoTunnelsDetailResponse_def)
  from object_multi_exact [OF keys typed this, of "None :: 'e error option"]
  obtain v' where
    "object (field_ArgoTunnelsDetailResponse pt) kvs zero_ArgoTunnelsDetailResponse
       (None :: 'e error option) = Inr (v', None)"
    "ArgoTunnelsDetailResponse.Result v' = pick kvs ''result'' (json_list (tunnel_of_json pt))
       (ArgoTunnelsDetailResponse.Result
          (zero_ArgoTunnelsDetailResponse :: 't ArgoTunnelsDetailResponse))"
    by blast
  then have obj: "value_ArgoTunnelsDetailResponse pt j zero_ArgoTunnelsDetailResponse
      (None :: 'e error option) = Inr (v', None)"
    and res: "ArgoTunnelsDetailResponse.Result v' =
      json_list (tunnel_of_json pt) (map_of (members j) ''result'')"
    by (simp_all add: j value_ArgoTunnelsDetailResponse_def value_struct_def members_def
        zero_ArgoTunnelsDetailResponse_def pick_nil_tunnels)
  from scanned obj have "Unmarshal sc (value_ArgoTunnelsDetailResponse pt) data
      zero_ArgoTunnelsDetailResponse = (Inr v' :: 'e error + 't ArgoTunnelsDetailResponse)"
    by (simp add: Unmarshal_def)
  with res show ?thesis by blast
qed

lemmas shape_defs = is_object_def exact_keys_def member_ok_def findField_def envelope_names_def
  tunnel_names_def connection_names_def info_names_def is_string_def is_bool_def is_time_def
  is_array_def documented_connection_def documented_connection_typ_def documented_tunnel_def
  documented_tunnel_typ_def documented_single_envelope_def documented_single_typ_def
  nullable_multi_envelope_def
  nullable_multi_typ_def response_typ_def bool_or_null_def array_or_null_def

lemmas reading_defs = json_tunnel_def tunnel_of_json_def connection_of_json_def members_def
  json_string_def json_bool_def json_time_def json_list_def

lemma transport_example:
  "\<forall>req \<in> reqs. makeRequestContext (example_api outcome) req = outcome"
  by (simp add: example_api_def)

lemma scan_example: "scan (example_api outcome) = example_scan"
  by (simp add: example_api_def)

lemma parseTime_example: "parseTime (example_api outcome) = example_parseTime"
  by (simp add: example_api_def)



lemma scan_bare_connection: "example_scan doc_bare_connection = Some json_bare_connection"
  by (simp add: example_scan_def doc_created_def doc_failed_def doc_list_def doc_bare_connection_def)

lemma scan_no_result: "example_scan doc_no_result = Some json_no_result"
  by (simp add: example_scan_def doc_created_def doc_failed_def doc_list_def doc_bare_connection_def
      doc_no_result_def)

lemma json_no_result_nullable: "nullable_multi_envelope example_parseTime json_no_result"
  by (simp add: json_no_result_def shape_defs)

lemma json_bare_connection_documented:
  "documented_single_envelope example_parseTime json_bare_connection"
  by (simp add: json_bare_connection_def shape_defs)

subsection \<open>Decoding fails only with errors of the JSON decoder\<close>

lemma decoded_json_into [simp]: "decoded_json (into store r) = decoded_json r"
  by (simp add: decoded_json_def into_def split: sum.split prod.split)

lemma saved_json_saveError:
  "saved_json saved \<Longrightarrow> saved_json (saveError (UnmarshalTypeError v t) saved)"
  by (cases saved) (simp_all add: saved_json_def saveError_def json_error_def)

lemma decoded_json_Inr [simp]: "decoded_json (Inr (v, saved)) = saved_json saved"
  by (simp add: decoded_json_def)

lemma decoded_json_Inl [simp]: "decoded_json (Inl err) = json_error err"
  by (simp add: decoded_json_def)

lemma value_string_json: "saved_json saved \<Longrightarrow> decoded_json (value_string j v saved)"
  by (cases j) (simp_all add: value_string_def decoded_json_def saved_json_saveError)

lemma value_bool_json: "saved_json saved \<Longrightarrow> decoded_json (value_bool j v saved)"
  by (cases j) (simp_all add: value_bool_def decoded_json_def saved_json_saveError)

lemma value_int_json: "saved_json saved \<Longrightarrow> decoded_json (value_int j v saved)"
  by (cases j)
    (simp_all add: value_int_def saved_json_saveError split: option.split)

lemma value_time_json: "saved_json saved \<Longrightarrow> decoded_json (value_time pt j v saved)"
  by (cases j)
    (simp_all add: value_time_def json_error_def split: option.split)

lemma object_json:
  assumes "\<And>key j v saved. saved_json saved \<Longrightarrow> decoded_json (field key j v saved)"
  shows "saved_json saved \<Longrightarrow> decoded_json (object field kvs v saved)"
proof (induction kvs arbitrary: v saved)
  case Nil
  then show ?case by simp
next
  case (Cons kv kvs)
  obtain key j where kv: "kv = (key, j)" by (cases kv)
  from assms [OF Cons.prems, of key j v] have step: "decoded_json (field key j v saved)" .
  show ?case
  proof (cases "field key j v saved")
    case (Inl err)
    with step show ?thesis by (simp add: kv)
  next
    case (Inr r)
    obtain v' saved' where r: "r = (v', saved')" by (cases r)
    with step Inr have "saved_json saved'" by simp
    then have "decoded_json (object field kvs v' saved')" by (rule Cons.IH)
    with Inr r show ?thesis by (simp add: kv)
  qed
qed

lemma array_json:
  assumes "\<And>j x saved. saved_json saved \<Longrightarrow> decoded_json (elem j x saved)"
  shows "saved_json saved \<Longrightarrow> decoded_json (array elem zero js old saved)"
proof (induction js arbitrary: old saved)
  case Nil
  then show ?case by simp
next
  case (Cons j js)
  let ?x = "case old of [] \<Rightarrow> zero | x # _ \<Rightarrow> x"
  from assms [OF Cons.prems, of j ?x] have step: "decoded_json (elem j ?x saved)" .
  show ?case
  proof (cases "elem j ?x saved")
    case (Inl err)
    with step show ?thesis by simp
  next
    case (Inr r)
    obtain x' saved' where r: "r = (x', saved')" by (cases r)
    with step Inr have "saved_json saved'" by simp
    then have "decoded_json (array elem zero js (tl old) saved')" by (rule Cons.IH)
    with Inr r show ?thesis
      by (cases "array elem zero js (tl old) saved'") auto
  qed
qed

lemma value_struct_json:
  assumes "\<And>key j v saved. saved_json saved \<Longrightarrow> decoded_json (field key j v saved)"
    and "saved_json saved"
  shows "decoded_json (value_struct field tyname j v saved)"
proof (cases j)
  case (JObject kvs)
  from assms have "decoded_json (object field kvs v saved)" by (rule object_json)
  with JObject show ?thesis by (simp add: value_struct_def)
qed (use assms(2) in \<open>simp_all add: value_struct_def saved_json_saveError\<close>)

lemma value_slice_json:
  assumes "\<And>j x saved. saved_json saved \<Longrightarrow> decoded_json (elem j x saved)"
    and "saved_json saved"
  shows "decoded_json (value_slice elem zero tyname j v saved)"
proof (cases j)
  case (JArray js)
  from assms have "decoded_json (array elem zero js (case v of None \<Rightarrow> [] | Some xs \<Rightarrow> xs) saved)"
    by (rule array_json)
  with JArray show ?thesis by (simp add: value_slice_def)
qed (use assms(2) in \<open>simp_all add: value_slice_def saved_json_saveError\<close>)

lemma value_ArgoTunnelConnection_json:
  "saved_json saved \<Longrightarrow> decoded_json (value_ArgoTunnelConnection j v saved)"
  unfolding value_ArgoTunnelConnection_def
  by (rule value_struct_json)
    (simp_all add: field_ArgoTunnelConnection_def value_string_json value_bool_json
      split: option.split)

lemma value_ResponseInfo_json:
  "saved_json saved \<Longrightarrow> decoded_json (value_ResponseInfo j v saved)"
  unfolding value_ResponseInfo_def
  by (rule value_struct_json)
    (simp_all add: field_ResponseInfo_def value_string_json value_int_json
      split: option.split)

lemma field_Response_json:
  "saved_json saved \<Longrightarrow> decoded_json (field_Response name j v saved)"
  by (simp add: field_Response_def value_bool_json value_slice_json value_ResponseInfo_json)

lemma value_ArgoTunnel_json:
  "saved_json saved \<Longrightarrow> decoded_json (value_ArgoTunnel pt j v saved)"
  unfolding value_ArgoTunnel_def
  by (rule value_struct_json)
    (simp_all add: field_ArgoTunnel_def value_string_json value_time_json value_slice_json
      value_ArgoTunnelConnection_json split: option.split)

lemma value_ArgoTunnelDetailResponse_json:
  "saved_json saved \<Longrightarrow> decoded_json (value_ArgoTunnelDetailResponse pt j v saved)"
  unfolding value_ArgoTunnelDetailResponse_def
  by (rule value_struct_json)
    (simp_all add: field_ArgoTunnelDetailResponse_def value_ArgoTunnel_json field_Response_json
      split: option.split)

lemma value_ArgoTunnelsDetailResponse_json:
  "saved_json saved \<Longrightarrow> decoded_json (value_ArgoTunnelsDetailResponse pt j v saved)"
  unfolding value_ArgoTunnelsDetailResponse_def
  by (rule value_struct_json)
    (simp_all add: field_ArgoTunnelsDetailResponse_def value_ArgoTunnel_json value_slice_json
      field_Response_json split: option.split)

lemma Unmarshal_json:
  assumes "\<And>j v saved. saved_json saved \<Longrightarrow> decoded_json (decode j v saved)"
    and "Unmarshal sc decode data v = Inl err"
  shows "json_error err"
proof (cases "sc data")
  case None
  with assms(2) show ?thesis by (simp add: Unmarshal_def json_error_def)
next
  case (Some j)
  have "saved_json None" by (simp add: saved_json_def)
  then have "decoded_json (decode j v None)" by (rule assms(1))
  with assms(2) Some show ?thesis
    by (cases "decode j v None")
      (auto simp: Unmarshal_def saved_json_def split: option.splits)
qed

subsection \<open>Decoding an accepted list\<close>




lemma result_members_Nil [simp]: "result_members [] = []"
  by (simp add: result_members_def)










lemma findField_Result:
  "findField [''result'', ''success'', ''errors'', ''messages''] ''Result'' = Some ''result''"
  by (simp add: findField_def caseMask_def isUpper_def)










subsection \<open>Decoding rejects every response outside the accepting shapes\<close>

lemma failed_Inl [simp]: "failed (Inl err)"
  by (simp add: failed_def)

lemma failed_Inr [simp]: "failed (Inr (v, saved)) \<longleftrightarrow> saved \<noteq> None"
  by (simp add: failed_def)

lemma failed_into [simp]: "failed (into store r) = failed r"
  by (simp add: failed_def into_def split: sum.split prod.split)

lemma saveError_Some [simp]: "saveError err saved \<noteq> None"
  by (cases saved) (simp_all add: saveError_def)
























subsection \<open>The claims\<close>

text \<open>
  \<^bold>\<open>C1.\<close>  Each operation issues exactly one request, with the method and path of the
  spec's table: List \<^verbatim>\<open>GET /accounts/{accountID}/tunnels\<close>, Get
  \<^verbatim>\<open>GET /accounts/{accountID}/tunnels/{tunnelID}\<close>, Create \<^verbatim>\<open>POST /accounts/{accountID}/tunnels\<close>,
  Delete \<^verbatim>\<open>DELETE /accounts/{accountID}/tunnels/{tunnelID}\<close>, CleanupConnections
  \<^verbatim>\<open>DELETE /accounts/{accountID}/tunnels/{tunnelID}/connections\<close>.  The account ID and the
  tunnel ID are copied into the path unchanged, whatever bytes they contain.
\<close>

theorem method_and_path:
  "map (\<lambda>r. (method r, uri r)) (fst (ArgoTunnels api accountID)) =
     [(''GET'', ''/accounts/'' @ accountID @ ''/tunnels'')] \<and>
   map (\<lambda>r. (method r, uri r)) (fst (ArgoTunnel api accountID tunnelUUID)) =
     [(''GET'', ''/accounts/'' @ accountID @ ''/tunnels/'' @ tunnelUUID)] \<and>
   map (\<lambda>r. (method r, uri r)) (fst (CreateArgoTunnel api accountID name secret)) =
     [(''POST'', ''/accounts/'' @ accountID @ ''/tunnels'')] \<and>
   map (\<lambda>r. (method r, uri r)) (fst (DeleteArgoTunnel api accountID tunnelUUID)) =
     [(''DELETE'', ''/accounts/'' @ accountID @ ''/tunnels/'' @ tunnelUUID)] \<and>
   map (\<lambda>r. (method r, uri r)) (fst (CleanupArgoTunnelConnections api accountID tunnelUUID)) =
     [(''DELETE'', ''/accounts/'' @ accountID @ ''/tunnels/'' @ tunnelUUID @ ''/connections'')]"
  by (simp add: op_defs Let_def)

theorem method_and_path_witness:
  "map (\<lambda>r. (method r, uri r))
     (fst (DeleteArgoTunnel (example_api (Inr doc_created)) ''acct 1/x'' ''t1?'')) =
     [(''DELETE'', ''/accounts/acct 1/x/tunnels/t1?'')]"
  using method_and_path [of "example_api (Inr doc_created)" "''acct 1/x''" "''t1?''"]
  by simp

text \<open>
  \<^bold>\<open>C2.\<close>  When the transport reports an error for the request an operation issues, the
  operation returns the zero value (the empty, non-nil slice for List; the zero tunnel
  for Get and Create) and a non-nil error: the transport's error wrapped with the constant
  message \<^verbatim>\<open>errMakeRequestError\<close>.
\<close>

theorem transport_failure:
  "((\<forall>req \<in> set (fst (ArgoTunnels api accountID)). makeRequestContext api req = Inl e) \<longrightarrow>
      snd (ArgoTunnels api accountID) =
        (Some [], Some (Wrap (TransportFailure e) (errMakeRequestError api)))) \<and>
   ((\<forall>req \<in> set (fst (ArgoTunnel api accountID tunnelUUID)). makeRequestContext api req = Inl e) \<longrightarrow>
      snd (ArgoTunnel api accountID tunnelUUID) =
        (zero_ArgoTunnel, Some (Wrap (TransportFailure e) (errMakeRequestError api)))) \<and>
   ((\<forall>req \<in> set (fst (CreateArgoTunnel api accountID name secret)).
        makeRequestContext api req = Inl e) \<longrightarrow>
      snd (CreateArgoTunnel api accountID name secret) =
        (zero_ArgoTunnel, Some (Wrap (TransportFailure e) (errMakeRequestError api)))) \<and>
   ((\<forall>req \<in> set (fst (DeleteArgoTunnel api accountID tunnelUUID)).
        makeRequestContext api req = Inl e) \<longrightarrow>
      snd (DeleteArgoTunnel api accountID tunnelUUID) =
        Some (Wrap (TransportFailure e) (errMakeRequestError api))) \<and>
   ((\<forall>req \<in> set (fst (CleanupArgoTunnelConnections api accountID tunnelUUID)).
        makeRequestContext api req = Inl e) \<longrightarrow>
      snd (CleanupArgoTunnelConnections api accountID tunnelUUID) =
        Some (Wrap (TransportFailure e) (errMakeRequestError api))) \<and>
   Cause (Wrap (TransportFailure e) (errMakeRequestError api)) = TransportFailure e"
  by (simp add: op_defs Let_def Wrap_def)

theorem transport_failure_witness:
  "snd (ArgoTunnels (example_api (Inl ''connection refused'')) ''acct1'') =
     (Some [], Some (Wrapped (TransportFailure ''connection refused'') ''error from makeRequest'')) \<and>
   snd (CreateArgoTunnel (example_api (Inl ''connection refused'')) ''acct1'' ''mytunnel'' ''s3cr3t'') =
     (zero_ArgoTunnel,
      Some (Wrapped (TransportFailure ''connection refused'') ''error from makeRequest'')) \<and>
   snd (CleanupArgoTunnelConnections (example_api (Inl ''connection refused'')) ''acct1'' ''t1'') =
     Some (Wrapped (TransportFailure ''connection refused'') ''error from makeRequest'')"
proof -
  have t: "\<forall>req \<in> set reqs. makeRequestContext (example_api (Inl ''connection refused'')) req =
      Inl ''connection refused''" for reqs
    by (simp add: example_api_def)
  from transport_failure [of "example_api (Inl ''connection refused'')" "''acct1''"
      "''connection refused''" "''t1''" "''mytunnel''" "''s3cr3t''"] t
  have "snd (ArgoTunnels (example_api (Inl ''connection refused'')) ''acct1'') =
      (Some [], Some (Wrap (TransportFailure ''connection refused'')
         (errMakeRequestError (example_api (Inl ''connection refused'')))))"
    and "snd (CreateArgoTunnel (example_api (Inl ''connection refused'')) ''acct1'' ''mytunnel''
        ''s3cr3t'') =
      (zero_ArgoTunnel, Some (Wrap (TransportFailure ''connection refused'')
         (errMakeRequestError (example_api (Inl ''connection refused'')))))"
    and "snd (CleanupArgoTunnelConnections (example_api (Inl ''connection refused'')) ''acct1''
        ''t1'') =
      Some (Wrap (TransportFailure ''connection refused'')
         (errMakeRequestError (example_api (Inl ''connection refused''))))"
    by blast+
  then show ?thesis
    by (simp add: Wrap_def example_api_def)
qed

text \<open>
  \<^bold>\<open>C3.\<close>  When the transport succeeds and \<^verbatim>\<open>json.Unmarshal\<close> of the returned bytes into the
  operation's envelope type fails, the operation returns the zero value and a non-nil
  error: the JSON error (a syntax error, a type mismatch or a rejected timestamp, never
  something else) wrapped with the constant message \<^verbatim>\<open>errUnmarshalError\<close>.  No operation
  returns anything but the zero value together with an error.
\<close>

theorem decode_failure:
  "((\<forall>req \<in> set (fst (ArgoTunnels api accountID)). makeRequestContext api req = Inr res) \<and>
    Unmarshal (scan api) (value_ArgoTunnelsDetailResponse (parseTime api)) res
      zero_ArgoTunnelsDetailResponse = Inl err \<longrightarrow>
      snd (ArgoTunnels api accountID) = (Some [], Some (Wrap err (errUnmarshalError api)))) \<and>
   ((\<forall>req \<in> set (fst (ArgoTunnel api accountID tunnelUUID)). makeRequestContext api req = Inr res) \<and>
    Unmarshal (scan api) (value_ArgoTunnelDetailResponse (parseTime api)) res
      zero_ArgoTunnelDetailResponse = Inl err \<longrightarrow>
      snd (ArgoTunnel api accountID tunnelUUID) =
        (zero_ArgoTunnel, Some (Wrap err (errUnmarshalError api)))) \<and>
   ((\<forall>req \<in> set (fst (CreateArgoTunnel api accountID name secret)).
        makeRequestContext api req = Inr res) \<and>
    Unmarshal (scan api) (value_ArgoTunnelDetailResponse (parseTime api)) res
      zero_ArgoTunnelDetailResponse = Inl err \<longrightarrow>
      snd (CreateArgoTunnel api accountID name secret) =
        (zero_ArgoTunnel, Some (Wrap err (errUnmarshalError api)))) \<and>
   ((\<forall>req \<in> set (fst (DeleteArgoTunnel api accountID tunnelUUID)).
        makeRequestContext api req = Inr res) \<and>
    Unmarshal (scan api) (value_ArgoTunnelDetailResponse (parseTime api)) res
      zero_ArgoTunnelDetailResponse = Inl err \<longrightarrow>
      snd (DeleteArgoTunnel api accountID tunnelUUID) = Some (Wrap err (errUnmarshalError api))) \<and>
   ((\<forall>req \<in> set (fst (CleanupArgoTunnelConnections api accountID tunnelUUID)).
        makeRequestContext api req = Inr res) \<and>
    Unmarshal (scan api) (value_ArgoTunnelDetailResponse (parseTime api)) res
      zero_ArgoTunnelDetailResponse = Inl err \<longrightarrow>
      snd (CleanupArgoTunnelConnections api accountID tunnelUUID) =
        Some (Wrap err (errUnmarshalError api))) \<and>
   (snd (snd (ArgoTunnels api accountID)) \<noteq> None \<longrightarrow>
      fst (snd (ArgoTunnels api accountID)) = Some []) \<and>
   (snd (snd (ArgoTunnel api accountID tunnelUUID)) \<noteq> None \<longrightarrow>
      fst (snd (ArgoTunnel api accountID tunnelUUID)) = zero_ArgoTunnel) \<and>
   (snd (snd (CreateArgoTunnel api accountID name secret)) \<noteq> None \<longrightarrow>
      fst (snd (CreateArgoTunnel api accountID name secret)) = zero_ArgoTunnel) \<and>
   Cause (Wrap err (errUnmarshalError api)) = Cause err \<and>
   (Unmarshal (scan api) (value_ArgoTunnelsDetailResponse (parseTime api)) res
      zero_ArgoTunnelsDetailResponse = Inl err \<longrightarrow> json_error err) \<and>
   (Unmarshal (scan api) (value_ArgoTunnelDetailResponse (parseTime api)) res
      zero_ArgoTunnelDetailResponse = Inl err \<longrightarrow> json_error err)"
proof -
  have multi: "json_error err"
    if "Unmarshal (scan api) (value_ArgoTunnelsDetailResponse (parseTime api)) res
      zero_ArgoTunnelsDetailResponse = Inl err"
    using value_ArgoTunnelsDetailResponse_json that by (rule Unmarshal_json)
  have single: "json_error err"
    if "Unmarshal (scan api) (value_ArgoTunnelDetailResponse (parseTime api)) res
      zero_ArgoTunnelDetailResponse = Inl err"
    using value_ArgoTunnelDetailResponse_json that by (rule Unmarshal_json)
  from multi single show ?thesis
    by (simp add: op_defs Let_def Wrap_def split: sum.split)
qed

theorem decode_failure_witness:
  "snd (ArgoTunnels (example_api (Inr doc_truncated)) ''acct1'') =
     (Some [], Some (Wrapped SyntaxError ''error unmarshalling the JSON response'')) \<and>
   snd (ArgoTunnel (example_api (Inr doc_mismatch)) ''acct1'' ''t1'') =
     (zero_ArgoTunnel,
      Some (Wrapped (UnmarshalTypeError ''string'' ''cloudflare.ArgoTunnel'')
              ''error unmarshalling the JSON response'')) \<and>
   snd (DeleteArgoTunnel (example_api (Inr doc_truncated)) ''acct1'' ''t1'') =
     Some (Wrapped SyntaxError ''error unmarshalling the JSON response'')"
proof -
  have list: "Unmarshal (scan (example_api (Inr doc_truncated)))
      (value_ArgoTunnelsDetailResponse (parseTime (example_api (Inr doc_truncated))))
      doc_truncated zero_ArgoTunnelsDetailResponse = Inl SyntaxError"
    by (simp add: Unmarshal_def example_api_def scan_truncated)
  have single: "Unmarshal (scan (example_api (Inr doc_truncated)))
      (value_ArgoTunnelDetailResponse (parseTime (example_api (Inr doc_truncated))))
      doc_truncated zero_ArgoTunnelDetailResponse = Inl SyntaxError"
    by (simp add: Unmarshal_def example_api_def scan_truncated)
  have mismatch: "Unmarshal (scan (example_api (Inr doc_mismatch)))
      (value_ArgoTunnelDetailResponse (parseTime (example_api (Inr doc_mismatch))))
      doc_mismatch zero_ArgoTunnelDetailResponse =
        Inl (UnmarshalTypeError ''string'' ''cloudflare.ArgoTunnel'')"
    by (simp add: Unmarshal_def example_api_def scan_mismatch json_mismatch_def
        value_ArgoTunnelDetailResponse_def value_struct_def single_result
        value_ArgoTunnel_def saveError_def)
  have t: "\<forall>req \<in> set reqs. makeRequestContext (example_api (Inr d)) req = Inr d" for reqs d
    by (simp add: example_api_def)
  from decode_failure [of "example_api (Inr doc_truncated)" "''acct1''" doc_truncated SyntaxError
      "''t1''" "''n''" "''s''"] list single t
  have a: "snd (ArgoTunnels (example_api (Inr doc_truncated)) ''acct1'') =
     (Some [], Some (Wrap SyntaxError (errUnmarshalError (example_api (Inr doc_truncated)))))"
    and c: "snd (DeleteArgoTunnel (example_api (Inr doc_truncated)) ''acct1'' ''t1'') =
     Some (Wrap SyntaxError (errUnmarshalError (example_api (Inr doc_truncated))))"
    by blast+
  from decode_failure [of "example_api (Inr doc_mismatch)" "''acct1''" doc_mismatch
      "UnmarshalTypeError ''string'' ''cloudflare.ArgoTunnel''" "''t1''" "''n''" "''s''"] mismatch t
  have b: "snd (ArgoTunnel (example_api (Inr doc_mismatch)) ''acct1'' ''t1'') =
     (zero_ArgoTunnel, Some (Wrap (UnmarshalTypeError ''string'' ''cloudflare.ArgoTunnel'')
        (errUnmarshalError (example_api (Inr doc_mismatch)))))"
    by blast
  from a b c show ?thesis
    by (simp add: Wrap_def example_api_def)
qed




text \<open>
  \<^bold>\<open>C5.\<close>  Create issues a POST whose body value is a tunnel with only the name and the
  secret set; its JSON object has the member \<^verbatim>\<open>name\<close> unless the name is empty and the
  member \<^verbatim>\<open>tunnel_secret\<close> unless the secret is empty, and no other member.  For the
  account \<^verbatim>\<open>acct1\<close>, the name \<^verbatim>\<open>mytunnel\<close> and the secret \<^verbatim>\<open>s3cr3t\<close> the body text is
  \<^verbatim>\<open>{"name":"mytunnel","tunnel_secret":"s3cr3t"}\<close>.
\<close>

theorem create_request_body:
  \<open>fst (CreateArgoTunnel api accountID name secret) =
     [\<lparr>method = ''POST'', uri = ''/accounts/'' @ accountID @ ''/tunnels'',
       params = Some \<lparr>ID = [], Name = name, Secret = secret, CreatedAt = None,
                      DeletedAt = None, Connections = None\<rparr>\<rparr>] \<and>
   marshal_ArgoTunnel formatTime
     \<lparr>ID = [], Name = name, Secret = secret, CreatedAt = None, DeletedAt = None,
      Connections = None\<rparr> =
     Some (JObject ((if name = [] then [] else [(''name'', JString name)]) @
                    (if secret = [] then [] else [(''tunnel_secret'', JString secret)]))) \<and>
   map (\<lambda>r. case params r of None \<Rightarrow> None | Some body \<Rightarrow> Marshal formatTime body)
     (fst (CreateArgoTunnel api ''acct1'' ''mytunnel'' ''s3cr3t'')) =
     [Some ''{"name":"mytunnel","tunnel_secret":"s3cr3t"}'']\<close>
proof -
  have body: "marshal_ArgoTunnel formatTime
      \<lparr>ID = [], Name = n, Secret = s, CreatedAt = None, DeletedAt = None, Connections = None\<rparr> =
      Some (JObject ((if n = [] then [] else [(''name'', JString n)]) @
                     (if s = [] then [] else [(''tunnel_secret'', JString s)])))" for n s
    by (simp add: marshal_ArgoTunnel_def marshal_time_def)
  have req: "fst (CreateArgoTunnel api a n s) =
      [\<lparr>method = ''POST'', uri = ''/accounts/'' @ a @ ''/tunnels'',
        params = Some \<lparr>ID = [], Name = n, Secret = s, CreatedAt = None,
                       DeletedAt = None, Connections = None\<rparr>\<rparr>]" for a n s
    by (simp add: CreateArgoTunnel_def Let_def zero_ArgoTunnel_def)
  have rendered: \<open>render (JObject [(''name'', JString ''mytunnel''),
      (''tunnel_secret'', JString ''s3cr3t'')]) = ''{"name":"mytunnel","tunnel_secret":"s3cr3t"}''\<close>
    by (simp add: encodeString_def htmlSafe_def)
  show ?thesis
    by (simp add: req body Marshal_def rendered del: render.simps)
qed

theorem create_request_body_witness:
  \<open>map (\<lambda>r. (method r, uri r,
      case params r of None \<Rightarrow> None | Some body \<Rightarrow> Marshal (\<lambda>t. Some t) body))
     (fst (CreateArgoTunnel (example_api (Inr doc_created)) ''acct1'' ''mytunnel'' [])) =
     [(''POST'', ''/accounts/acct1/tunnels'', Some ''{"name":"mytunnel"}'')]\<close>
proof -
  have rendered: \<open>render (JObject [(''name'', JString ''mytunnel'')]) = ''{"name":"mytunnel"}''\<close>
    by (simp add: encodeString_def htmlSafe_def)
  from create_request_body [of "example_api (Inr doc_created)" "''acct1''" "''mytunnel''" "[]"
      "\<lambda>t. Some t"]
  show ?thesis
    by (simp add: Marshal_def rendered del: render.simps)
qed







text \<open>
  \<^bold>\<open>C8\<close> (amended).  The connection members \<^verbatim>\<open>colo_name\<close>, \<^verbatim>\<open>uuid\<close> and
  \<^verbatim>\<open>is_pending_reconnect\<close> are always written when a connection is encoded, and none of them
  is required when a connection is decoded: a connection object of the documented shape is
  accepted whichever of the three members it omits, and an omitted member leaves the
  field at its zero value.
\<close>

theorem connection_fields_optional:
  assumes "documented_connection j"
  shows "value_ArgoTunnelConnection j zero_ArgoTunnelConnection saved =
           Inr (connection_of_json j, saved) \<and>
         connection_of_json (JObject []) = zero_ArgoTunnelConnection \<and>
         map fst (members (marshal_ArgoTunnelConnection c)) =
           [''colo_name'', ''uuid'', ''is_pending_reconnect'']"
  using value_ArgoTunnelConnection_exact [OF assms, of saved]
  by (simp add: connection_of_json_def members_def json_string_def json_bool_def
      zero_ArgoTunnelConnection_def marshal_ArgoTunnelConnection_def)

theorem connection_fields_optional_witness:
  "documented_connection (JObject [(''uuid'', JString ''c1'')]) \<and>
   value_ArgoTunnelConnection (JObject [(''uuid'', JString ''c1'')]) zero_ArgoTunnelConnection
     (None :: unit error option) =
     Inr (\<lparr>ColoName = [], UUID = ''c1'', IsPendingReconnect = False\<rparr>, None)"
proof -
  have d: "documented_connection (JObject [(''uuid'', JString ''c1'')])"
    by (simp add: shape_defs)
  from connection_fields_optional [OF d, of "None :: unit error option"] d
  show ?thesis
    by (simp add: connection_of_json_def members_def json_string_def json_bool_def)
qed

text \<open>
  \<^bold>\<open>C8\<close> as stated fails: a tunnel response whose connection object has none of the three
  members is decoded without error, into a connection of zero values.
\<close>

theorem connection_fields_required_counterexample:
  "snd (ArgoTunnel (example_api (Inr doc_bare_connection)) ''acct1'' ''t1'') =
     (\<lparr>ID = ''t1'', Name = [], Secret = [], CreatedAt = None, DeletedAt = None,
       Connections = Some [\<lparr>ColoName = [], UUID = [], IsPendingReconnect = False\<rparr>]\<rparr>, None)"
proof -
  from single_envelope_decoded [where sc = example_scan and data = doc_bare_connection,
      OF scan_bare_connection json_bare_connection_documented]
  obtain v' where decoded: "Unmarshal example_scan (value_ArgoTunnelDetailResponse example_parseTime)
      doc_bare_connection zero_ArgoTunnelDetailResponse =
        (Inr v' :: string error + string ArgoTunnelDetailResponse)"
    and result: "Result v' =
        json_tunnel example_parseTime (map_of (members json_bare_connection) ''result'')"
    by blast
  have "snd (ArgoTunnel (example_api (Inr doc_bare_connection)) ''acct1'' ''t1'') =
      (Result v', None)"
    by (simp add: ArgoTunnel_def Let_def scan_example parseTime_example decoded)
       (simp add: example_api_def decoded)
  then show ?thesis
    by (simp add: result json_bare_connection_def reading_defs)
qed

text \<open>
  \<^bold>\<open>C9.\<close>  When the transport succeeds with an accepted multi-result envelope that has no
  \<^verbatim>\<open>result\<close> member, or a \<^verbatim>\<open>null\<close> one, List returns the nil slice and no error,
  which is not the empty slice; whenever List returns an error, its slice is the empty,
  non-nil one.
\<close>

theorem list_nil_without_result:
  fixes api :: "('e, 't) API"
  assumes transport: "\<forall>req \<in> set (fst (ArgoTunnels api accountID)).
      makeRequestContext api req = Inr res"
    and scanned: "scan api res = Some j"
    and shape: "nullable_multi_envelope (parseTime api) j"
    and absent: "map_of (members j) ''result'' = None \<or> map_of (members j) ''result'' = Some JNull"
  shows "snd (ArgoTunnels api accountID) = (None, None) \<and>
         (None :: 't ArgoTunnel list option) \<noteq> Some [] \<and>
         (\<forall>api' :: ('e, 't) API.
            snd (snd (ArgoTunnels api' accountID)) \<noteq> None \<longrightarrow>
            fst (snd (ArgoTunnels api' accountID)) = Some [])"
proof -
  from multi_envelope_decoded [where sc = "scan api" and data = res, OF scanned shape]
  obtain v' where decoded: "Unmarshal (scan api) (value_ArgoTunnelsDetailResponse (parseTime api))
      res zero_ArgoTunnelsDetailResponse = (Inr v' :: 'e error + 't ArgoTunnelsDetailResponse)"
    and r: "ArgoTunnelsDetailResponse.Result v' =
      json_list (tunnel_of_json (parseTime api)) (map_of (members j) ''result'')"
    by blast
  from absent have "json_list (tunnel_of_json (parseTime api)) (map_of (members j) ''result'') = None"
    by (auto simp: json_list_def)
  with r have nil: "ArgoTunnelsDetailResponse.Result v' = None" by simp
  from transport have "snd (ArgoTunnels api accountID) =
      (ArgoTunnelsDetailResponse.Result v', None)"
    by (simp add: ArgoTunnels_def Let_def decoded)
  with nil have "snd (ArgoTunnels api accountID) = (None, None)" by simp
  moreover have "\<forall>api' :: ('e, 't) API.
      snd (snd (ArgoTunnels api' accountID)) \<noteq> None \<longrightarrow>
      fst (snd (ArgoTunnels api' accountID)) = Some []"
    by (simp add: ArgoTunnels_def Let_def split: sum.split)
  ultimately show ?thesis by simp
qed

theorem list_nil_without_result_witness:
  "example_scan doc_no_result = Some json_no_result \<and>
   nullable_multi_envelope example_parseTime json_no_result \<and>
   map_of (members json_no_result) ''result'' = None \<and>
   snd (ArgoTunnels (example_api (Inr doc_no_result)) ''acct1'') = (None, None)"
proof -
  have s: "scan (example_api (Inr doc_no_result)) doc_no_result = Some json_no_result"
    by (simp add: scan_example scan_no_result)
  have d: "nullable_multi_envelope (parseTime (example_api (Inr doc_no_result))) json_no_result"
    by (simp add: parseTime_example json_no_result_nullable)
  have r: "map_of (members json_no_result) ''result'' = None"
    by (simp add: json_no_result_def members_def)
  then have r': "map_of (members json_no_result) ''result'' = None \<or>
      map_of (members json_no_result) ''result'' = Some JNull" ..
  from list_nil_without_result [OF transport_example s d r', of "''acct1''"] r
    scan_no_result json_no_result_nullable
  show ?thesis by simp
qed

end
